theory Spec2Isabelle
  imports Main "HOL-Library.AList"
begin

section \<open>JavaScript values and strings\<close>

text \<open>
  Request bodies and query parameters are untyped JSON values. The validators only test
  truthiness and \<^verbatim>\<open>typeof v === 'string'\<close>, so objects and arrays are one constructor.
  Numbers are integers here (no validator reads a number's value beyond truthiness).
\<close>

datatype jsval = JUndefined | JNull | JBool bool | JNum int | JStr string | JObject

fun truthy :: "jsval \<Rightarrow> bool" where
  "truthy JUndefined = False"
| "truthy JNull = False"
| "truthy (JBool b) = b"
| "truthy (JNum n) = (n \<noteq> 0)"
| "truthy (JStr s) = (s \<noteq> [])"
| "truthy JObject = True"

text \<open>
  A string is a list of 8-bit characters, read as the code units U+0000 to U+00FF.
  \<^verbatim>\<open>String.prototype.trim\<close> removes white space and line terminators at both ends; in this
  range these are TAB, LF, VT, FF, CR, SPACE and NBSP. \<^verbatim>\<open>toLowerCase\<close> maps A to Z and the
  Latin-1 capitals (U+00C0 to U+00DE, without the multiplication sign U+00D7) 32 places up.
\<close>

definition isWhiteSpace :: "char \<Rightarrow> bool" where
  "isWhiteSpace c = ((of_char c :: nat) \<in> {9, 10, 11, 12, 13, 32, 160})"

definition trim :: "string \<Rightarrow> string" where
  "trim s = rev (dropWhile isWhiteSpace (rev (dropWhile isWhiteSpace s)))"

definition lowerChar :: "char \<Rightarrow> char" where
  "lowerChar c =
     (let n = (of_char c :: nat)
      in if (65 \<le> n \<and> n \<le> 90) \<or> (192 \<le> n \<and> n \<le> 222 \<and> n \<noteq> 215)
         then char_of (n + 32) else c)"

definition toLowerCase :: "string \<Rightarrow> string" where
  "toLowerCase s = map lowerChar s"

definition startsWith :: "string \<Rightarrow> string \<Rightarrow> bool" where
  "startsWith s p = (take (length p) s = p)"

definition endsWith :: "string \<Rightarrow> string \<Rightarrow> bool" where
  "endsWith s p = (length p \<le> length s \<and> drop (length s - length p) s = p)"

section \<open>lib/validation.js\<close>

text \<open>A validator returns \<^verbatim>\<open>{valid: true, value}\<close> or \<^verbatim>\<open>{valid: false, error}\<close>.\<close>

datatype validation = Valid string | Invalid string

text \<open>The character class \<^verbatim>\<open>[a-z0-9-]\<close> and the test \<^verbatim>\<open>/^[a-z0-9-]+$/\<close>.\<close>

definition labelChar :: "char \<Rightarrow> bool" where
  "labelChar c = (c \<in> set ''abcdefghijklmnopqrstuvwxyz0123456789-'')"

definition formatTest :: "string \<Rightarrow> bool" where
  "formatTest s = (s \<noteq> [] \<and> list_all labelChar s)"

definition reserved :: "string list" where
  "reserved = [''www'', ''mail'', ''ftp'', ''admin'', ''root'', ''api'', ''ns1'', ''ns2'']"

fun validateSubdomainName :: "jsval \<Rightarrow> validation" where
  "validateSubdomainName (JStr subdomain) =
     (if subdomain = [] then Invalid ''Subdomain name is required''
      else let trimmed = toLowerCase (trim subdomain)
        in if length trimmed < 3 \<or> length trimmed > 63
             then Invalid ''Subdomain must be between 3 and 63 characters''
           else if \<not> formatTest trimmed
             then Invalid ''Subdomain can only contain lowercase letters, numbers, and hyphens''
           else if startsWith trimmed ''-'' \<or> endsWith trimmed ''-''
             then Invalid ''Subdomain cannot start or end with a hyphen''
           else if trimmed \<in> set reserved
             then Invalid ''This subdomain name is reserved''
           else Valid trimmed)"
| "validateSubdomainName _ = Invalid ''Subdomain name is required''"

text \<open>
  The label rule in the words of the specification (section 3 and 4.1), to be compared with
  the validator: the string matches \<^verbatim>\<open>[a-z0-9-]{3,63}\<close>, neither its first nor its last
  character is a hyphen, and it is not one of the eight reserved names.
\<close>

definition spec_label :: "string \<Rightarrow> bool" where
  "spec_label l =
     ((\<forall>c \<in> set l. labelChar c) \<and> 3 \<le> length l \<and> length l \<le> 63
      \<and> hd l \<noteq> CHR ''-'' \<and> last l \<noteq> CHR ''-''
      \<and> l \<notin> {''www'', ''mail'', ''ftp'', ''admin'', ''root'', ''api'', ''ns1'', ''ns2''})"

text \<open>
  \<^verbatim>\<open>validator.isIP(s, 4)\<close> and \<^verbatim>\<open>validator.isFQDN(s)\<close> come from the npm package
  \<^verbatim>\<open>validator\<close>, which is not part of the repository: the two predicates are parameters.
\<close>

record lib =
  isIP4 :: "string \<Rightarrow> bool"
  isFQDN :: "string \<Rightarrow> bool"

fun validateIP :: "lib \<Rightarrow> jsval \<Rightarrow> validation" where
  "validateIP L (JStr ip) =
     (if ip = [] then Invalid ''IP address is required''
      else if \<not> isIP4 L ip then Invalid ''Invalid IPv4 address''
      else Valid (trim ip))"
| "validateIP L _ = Invalid ''IP address is required''"

text \<open>
  \<^verbatim>\<open>s.replace(/^https?:\/\//, '')\<close> drops one leading \<^verbatim>\<open>http://\<close> or \<^verbatim>\<open>https://\<close>;
  \<^verbatim>\<open>.replace(/\/$/, '')\<close> drops one final slash.
\<close>

definition stripScheme :: "string \<Rightarrow> string" where
  "stripScheme s =
     (if startsWith s ''https://'' then drop 8 s
      else if startsWith s ''http://'' then drop 7 s
      else s)"

definition stripSlash :: "string \<Rightarrow> string" where
  "stripSlash s = (if endsWith s ''/'' then butlast s else s)"

fun validateURL :: "lib \<Rightarrow> jsval \<Rightarrow> validation" where
  "validateURL L (JStr url) =
     (if url = [] then Invalid ''URL/domain is required''
      else let trimmed = trim url
        in if \<not> isFQDN L (stripSlash (stripScheme trimmed))
             then Invalid ''Invalid domain or URL''
           else Valid trimmed)"
| "validateURL L _ = Invalid ''URL/domain is required''"

section \<open>lib/powerdns-client.js\<close>

datatype rtype = A | CNAME

record rrecord =
  content :: string
  disabled :: bool

text \<open>
  One element of \<^verbatim>\<open>rrsets\<close> in the body of the PATCH request: name, type, and for
  \<^verbatim>\<open>changetype: 'REPLACE'\<close> the ttl and the records.
\<close>

datatype rrset = Replace string rtype nat "rrecord list" | Delete string rtype

text \<open>
  \<^verbatim>\<open>fetch\<close> resolves to a response with a status and a body text, or rejects with an error
  that carries a message. \<^verbatim>\<open>response.ok\<close> holds for the statuses 200 to 299.
\<close>

datatype fetchResult = Response nat string | NetworkError string

definition ok :: "nat \<Rightarrow> bool" where
  "ok st = (200 \<le> st \<and> st \<le> 299)"

type_synonym directory = "string \<times> rtype \<Rightarrow> (nat \<times> rrecord list) option"

text \<open>
  Modelled from the spec: the DNS Directory itself (the PowerDNS server behind the control
  API) is an external service and no code of it is in the repository. Sections 4.3 and 6 of
  the specification give it replace semantics: a REPLACE request sets the record set of
  its name and type to the ttl and records sent, a DELETE request removes that record set,
  and deleting an absent record set is tolerated.
\<close>

fun applyRRset :: "rrset \<Rightarrow> directory \<Rightarrow> directory" where
  "applyRRset (Replace n t ttl rs) dir = dir((n, t) \<mapsto> (ttl, rs))"
| "applyRRset (Delete n t) dir = dir((n, t) := None)"

section \<open>The state the handlers work on\<close>

datatype status = Pending | Approved | Rejected

text \<open>A document of the Firestore collection \<^verbatim>\<open>subdomains\<close>; \<open>None\<close> is a missing or null field.\<close>

record doc =
  subdomainName :: string
  userEmail :: string
  userId :: string
  targetUrl :: string
  recordType :: rtype
  status :: status
  dnsCreated :: bool
  dnsError :: "string option"
  createdAt :: "nat option"
  approvedAt :: "nat option"
  updatedAt :: "nat option"

text \<open>
  The collection is a list of identifier and document, the DNS Directory a map, \<open>sent\<close> the
  requests issued to the control API so far, answered or not (oldest first), and
  \<open>rateLimit\<close> the module-level
  \<^verbatim>\<open>Map\<close> of lib/rate-limit.js (identifier to count and reset time).
  Firestore is taken to answer every call; its outage is not modelled.
\<close>

record world =
  docs :: "(nat \<times> doc) list"
  dns :: directory
  sent :: "rrset list"
  rateLimit :: "string \<Rightarrow> (nat \<times> nat) option"

text \<open>
  The request is recorded as sent; the DNS Directory applies it exactly when it answers with
  a 2xx status (modelled from the spec, as \<open>applyRRset\<close>).
\<close>

definition fetch :: "rrset \<Rightarrow> fetchResult \<Rightarrow> world \<Rightarrow> world" where
  "fetch rr fr w =
     w\<lparr>sent := sent w @ [rr],
       dns := (case fr of
                 Response st txt \<Rightarrow> if ok st then applyRRset rr (dns w) else dns w
               | NetworkError m \<Rightarrow> dns w)\<rparr>"

text \<open>The decimal numeral of a number, as a template literal prints \<^verbatim>\<open>response.status\<close>.\<close>

fun decimal :: "nat \<Rightarrow> string" where
  "decimal n =
     (if n < 10 then [char_of (48 + n)]
      else decimal (n div 10) @ [char_of (48 + n mod 10)])"

text \<open>
  The three client functions return \<open>Inr True\<close> or throw an error, \<open>Inl\<close> of its message.
  The zone is the environment variable \<^verbatim>\<open>POWERDNS_ZONE\<close>.
\<close>

definition createARecord ::
  "string \<Rightarrow> string \<Rightarrow> string \<Rightarrow> fetchResult \<Rightarrow> world \<Rightarrow> (string + bool) \<times> world" where
  "createARecord zone subdomain targetIP fr w =
     (let fqdn = subdomain @ ''.'' @ zone;
          w' = fetch (Replace fqdn A 3600 [\<lparr>content = targetIP, disabled = False\<rparr>]) fr w
      in case fr of
           NetworkError m \<Rightarrow> (Inl m, w')
         | Response st errorText \<Rightarrow>
             if \<not> ok st
             then (Inl (''PowerDNS API error ('' @ decimal st @ ''): '' @ errorText), w')
             else (Inr True, w'))"

definition createCNAMERecord ::
  "string \<Rightarrow> string \<Rightarrow> string \<Rightarrow> fetchResult \<Rightarrow> world \<Rightarrow> (string + bool) \<times> world" where
  "createCNAMERecord zone subdomain target fr w =
     (let fqdn = subdomain @ ''.'' @ zone;
          targetWithDot = (if endsWith target ''.'' then target else target @ ''.'');
          w' = fetch (Replace fqdn CNAME 3600 [\<lparr>content = targetWithDot, disabled = False\<rparr>]) fr w
      in case fr of
           NetworkError m \<Rightarrow> (Inl m, w')
         | Response st errorText \<Rightarrow>
             if \<not> ok st
             then (Inl (''PowerDNS API error ('' @ decimal st @ ''): '' @ errorText), w')
             else (Inr True, w'))"

definition deleteRecord ::
  "string \<Rightarrow> string \<Rightarrow> rtype \<Rightarrow> fetchResult \<Rightarrow> world \<Rightarrow> (string + bool) \<times> world" where
  "deleteRecord zone subdomain rt fr w =
     (let fqdn = subdomain @ ''.'' @ zone;
          w' = fetch (Delete fqdn rt) fr w
      in case fr of
           NetworkError m \<Rightarrow> (Inl m, w')
         | Response st errorText \<Rightarrow>
             if \<not> ok st
             then (Inl (''PowerDNS API error ('' @ decimal st @ ''): '' @ errorText), w')
             else (Inr True, w'))"

text \<open>
  \<^verbatim>\<open>updateRecord\<close> dispatches on the record type; a stored record type is A or CNAME, so
  its last line (unsupported record type) is not reached.
\<close>

definition updateRecord ::
  "string \<Rightarrow> string \<Rightarrow> rtype \<Rightarrow> string \<Rightarrow> fetchResult \<Rightarrow> world \<Rightarrow> (string + bool) \<times> world" where
  "updateRecord zone subdomain rt c fr w =
     (case rt of
        A \<Rightarrow> createARecord zone subdomain c fr w
      | CNAME \<Rightarrow> createCNAMERecord zone subdomain c fr w)"

section \<open>lib/rate-limit.js\<close>

definition checkRateLimit ::
  "(string \<Rightarrow> (nat \<times> nat) option) \<Rightarrow> string \<Rightarrow> nat \<Rightarrow> nat \<Rightarrow> nat
     \<Rightarrow> bool \<times> (string \<Rightarrow> (nat \<times> nat) option)" where
  "checkRateLimit rl identifier maxRequests windowMs now =
     (case rl identifier of
        None \<Rightarrow> (True, rl(identifier \<mapsto> (1, now + windowMs)))
      | Some (count, resetTime) \<Rightarrow>
          if now > resetTime then (True, rl(identifier \<mapsto> (1, now + windowMs)))
          else if count < maxRequests then (True, rl(identifier \<mapsto> (count + 1, resetTime)))
          else (False, rl))"

section \<open>Firestore calls\<close>

text \<open>
  \<^verbatim>\<open>.where('subdomainName', '==', v).limit(1).get()\<close>; the snapshot is empty when the
  list is. \<^verbatim>\<open>doc(id).get()\<close> is \<open>map_of\<close>, \<^verbatim>\<open>update\<close> is \<open>AList.map_entry\<close> and \<^verbatim>\<open>delete\<close> is
  \<open>AList.delete\<close>. \<^verbatim>\<open>add\<close> stores the document under an identifier that Firestore
  generates, one not in use in the collection: here the number after the largest in use.
\<close>

definition whereSubdomainName :: "(nat \<times> doc) list \<Rightarrow> string \<Rightarrow> (nat \<times> doc) list" where
  "whereSubdomainName ds v = take 1 (filter (\<lambda>(i, d). subdomainName d = v) ds)"

definition newDocId :: "(nat \<times> doc) list \<Rightarrow> nat" where
  "newDocId ds = Suc (foldr max (map fst ds) 0)"

section \<open>pages/api/subdomains/index.js\<close>

record user =
  uid :: string
  email :: string
  isAdmin :: bool

record postBody =
  b_subdomainName :: jsval
  b_targetUrl :: jsval
  b_recordType :: jsval

text \<open>
  A response is a status and a JSON body: 201 with the new document, 200 with a document,
  200 for a deletion, 200 with \<^verbatim>\<open>{available, reason}\<close>, or an error status with
  \<^verbatim>\<open>{error}\<close>. The body carries the identifier and the stored fields; that the time stamps
  are printed by \<^verbatim>\<open>toISOString\<close> or \<^verbatim>\<open>toMillis\<close> is left out.
\<close>

datatype response =
    Created nat doc
  | Ok200 nat doc
  | Deleted
  | Availability bool "string option"
  | Error nat string

text \<open>
  The registry operation \<open>create\<close>: the body of \<^verbatim>\<open>handlePost\<close> behind the rate limiter
  (index.js, from the destructuring of \<^verbatim>\<open>req.body\<close> on). \<open>fr\<close> is the outcome of the one
  \<^verbatim>\<open>fetch\<close> the call may issue, \<open>tc\<close> and \<open>ta\<close> are the two readings of the clock.
\<close>

definition create ::
  "lib \<Rightarrow> string \<Rightarrow> user \<Rightarrow> postBody \<Rightarrow> fetchResult \<Rightarrow> nat \<Rightarrow> nat \<Rightarrow> world
     \<Rightarrow> response \<times> world" where
  "create L zone u b fr tc ta w =
     (let rt = (if b_recordType b = JUndefined then JStr ''A'' else b_recordType b)
      in case validateSubdomainName (b_subdomainName b) of
           Invalid e \<Rightarrow> (Error 400 e, w)
         | Valid sub \<Rightarrow>
             if rt \<noteq> JStr ''A'' \<and> rt \<noteq> JStr ''CNAME''
             then (Error 400 ''Invalid record type. Must be A or CNAME.'', w)
             else
               (case (if rt = JStr ''A'' then validateIP L (b_targetUrl b)
                      else validateURL L (b_targetUrl b)) of
                  Invalid e \<Rightarrow> (Error 400 e, w)
                | Valid tgt \<Rightarrow>
                    if whereSubdomainName (docs w) sub \<noteq> []
                    then (Error 409 ''This subdomain is already taken'', w)
                    else
                      (let (r, w1) = (if rt = JStr ''A'' then createARecord zone sub tgt fr w
                                      else createCNAMERecord zone sub tgt fr w);
                           subdomainData =
                             \<lparr>subdomainName = sub, userEmail = email u, userId = uid u,
                              targetUrl = tgt,
                              recordType = (if rt = JStr ''A'' then A else CNAME),
                              status = Approved,
                              dnsCreated = (case r of Inl m \<Rightarrow> False | Inr x \<Rightarrow> True),
                              dnsError = (case r of Inl m \<Rightarrow> Some m | Inr x \<Rightarrow> None),
                              createdAt = Some tc, approvedAt = Some ta, updatedAt = None\<rparr>;
                           i = newDocId (docs w1)
                       in (Created i subdomainData,
                           w1\<lparr>docs := docs w1 @ [(i, subdomainData)]\<rparr>))))"

definition handlePost ::
  "lib \<Rightarrow> string \<Rightarrow> user \<Rightarrow> string \<Rightarrow> nat \<Rightarrow> postBody \<Rightarrow> fetchResult \<Rightarrow> nat \<Rightarrow> nat \<Rightarrow> world
     \<Rightarrow> response \<times> world" where
  "handlePost L zone u clientIP now b fr tc ta w =
     (let (allowed, rl) = checkRateLimit (rateLimit w) clientIP 5 (15 * 60 * 1000) now;
          w0 = w\<lparr>rateLimit := rl\<rparr>
      in if \<not> allowed then (Error 429 ''Too many requests. Please try again later.'', w0)
         else create L zone u b fr tc ta w0)"

section \<open>pages/api/subdomains/[id].js\<close>

definition handleGet :: "user \<Rightarrow> nat \<Rightarrow> world \<Rightarrow> response \<times> world" where
  "handleGet u i w =
     (case map_of (docs w) i of
        None \<Rightarrow> (Error 404 ''Subdomain not found'', w)
      | Some data \<Rightarrow>
          if \<not> isAdmin u \<and> userId data \<noteq> uid u then (Error 403 ''Access denied'', w)
          else (Ok200 i data, w))"

definition handlePatch ::
  "lib \<Rightarrow> string \<Rightarrow> user \<Rightarrow> nat \<Rightarrow> jsval \<Rightarrow> fetchResult \<Rightarrow> nat \<Rightarrow> world \<Rightarrow> response \<times> world" where
  "handlePatch L zone u i target fr tu w =
     (case map_of (docs w) i of
        None \<Rightarrow> (Error 404 ''Subdomain not found'', w)
      | Some currentData \<Rightarrow>
          if \<not> isAdmin u \<and> userId currentData \<noteq> uid u then (Error 403 ''Access denied'', w)
          else if \<not> truthy target then (Error 400 ''targetUrl is required'', w)
          else
            (case (case recordType currentData of
                     A \<Rightarrow> validateIP L target
                   | CNAME \<Rightarrow> validateURL L target) of
               Invalid e \<Rightarrow> (Error 400 e, w)
             | Valid tgt \<Rightarrow>
                 (let (r, w1) =
                        (case recordType currentData of
                           A \<Rightarrow> createARecord zone (subdomainName currentData) tgt fr w
                         | CNAME \<Rightarrow> createCNAMERecord zone (subdomainName currentData) tgt fr w);
                      w2 = w1\<lparr>docs :=
                             AList.map_entry i
                               (\<lambda>d. d\<lparr>targetUrl := tgt,
                                      dnsCreated := (case r of Inl m \<Rightarrow> False | Inr x \<Rightarrow> True),
                                      dnsError := (case r of Inl m \<Rightarrow> Some m | Inr x \<Rightarrow> None),
                                      updatedAt := Some tu\<rparr>)
                               (docs w1)\<rparr>
                  in case map_of (docs w2) i of
                       None \<Rightarrow> (Error 500 ''Failed to update subdomain'', w2)
                     | Some updatedData \<Rightarrow> (Ok200 i updatedData, w2))))"

definition handleDelete ::
  "string \<Rightarrow> user \<Rightarrow> nat \<Rightarrow> fetchResult \<Rightarrow> world \<Rightarrow> response \<times> world" where
  "handleDelete zone u i fr w =
     (case map_of (docs w) i of
        None \<Rightarrow> (Error 404 ''Subdomain not found'', w)
      | Some data \<Rightarrow>
          if \<not> isAdmin u \<and> userId data \<noteq> uid u then (Error 403 ''Access denied'', w)
          else
            (let w1 = (if dnsCreated data
                       then snd (deleteRecord zone (subdomainName data) (recordType data) fr w)
                       else w)
             in (Deleted, w1\<lparr>docs := AList.delete i (docs w1)\<rparr>)))"

section \<open>pages/api/subdomains/check.js\<close>

datatype httpMethod = GET | POST | PATCH | DELETE | OtherMethod

definition check_handler :: "httpMethod \<Rightarrow> jsval \<Rightarrow> world \<Rightarrow> response" where
  "check_handler m name w =
     (if m \<noteq> GET then Error 405 ''Method not allowed''
      else if \<not> truthy name then Error 400 ''Subdomain name is required''
      else
        (case validateSubdomainName name of
           Invalid e \<Rightarrow> Availability False (Some e)
         | Valid v \<Rightarrow>
             (let available = (whereSubdomainName (docs w) v = [])
              in Availability available
                   (if available then None else Some ''This subdomain is already taken''))))"

section \<open>A concrete environment\<close>

text \<open>
  An instance of the two library predicates, to run the model on concrete requests; every
  theorem below is proved for all instances. \<open>dottedQuad\<close> accepts four decimal numbers
  from 0 to 255 without leading zeros, separated by dots. \<open>hostName\<close> accepts two or more
  labels separated by dots, each of 1 to 63 letters, digits and hyphens and with no hyphen
  at either end, the last one of two or more letters.
\<close>

fun splitOn :: "char \<Rightarrow> string \<Rightarrow> string list" where
  "splitOn c [] = [[]]"
| "splitOn c (x # xs) =
     (if x = c then [] # splitOn c xs
      else (case splitOn c xs of [] \<Rightarrow> [[x]] | p # ps \<Rightarrow> (x # p) # ps))"

definition isDigit :: "char \<Rightarrow> bool" where
  "isDigit c = (c \<in> set ''0123456789'')"

definition isLetter :: "char \<Rightarrow> bool" where
  "isLetter c = (c \<in> set ''abcdefghijklmnopqrstuvwxyzABCDEFGHIJKLMNOPQRSTUVWXYZ'')"

definition numeral_value :: "string \<Rightarrow> nat" where
  "numeral_value p = foldl (\<lambda>n c. 10 * n + (of_char c - 48)) 0 p"

definition quadPart :: "string \<Rightarrow> bool" where
  "quadPart p =
     (p \<noteq> [] \<and> length p \<le> 3 \<and> list_all isDigit p
      \<and> (if length p = 1 then True else hd p \<noteq> CHR ''0'') \<and> numeral_value p \<le> 255)"

definition dottedQuad :: "string \<Rightarrow> bool" where
  "dottedQuad s = (let ps = splitOn CHR ''.'' s in length ps = 4 \<and> list_all quadPart ps)"

definition hostLabel :: "string \<Rightarrow> bool" where
  "hostLabel p =
     (p \<noteq> [] \<and> length p \<le> 63 \<and> list_all (\<lambda>c. isLetter c \<or> isDigit c \<or> c = CHR ''-'') p
      \<and> hd p \<noteq> CHR ''-'' \<and> last p \<noteq> CHR ''-'')"

definition hostName :: "string \<Rightarrow> bool" where
  "hostName s =
     (let ps = splitOn CHR ''.'' s
      in 2 \<le> length ps \<and> list_all hostLabel ps
         \<and> 2 \<le> length (last ps) \<and> list_all isLetter (last ps))"

definition refLib :: lib where
  "refLib = \<lparr>isIP4 = dottedQuad, isFQDN = hostName\<rparr>"

text \<open>The world with no document, no record set, no request sent and no client counted.\<close>

definition world0 :: world where
  "world0 = \<lparr>docs = [], dns = Map.empty, sent = [], rateLimit = Map.empty\<rparr>"

text \<open>
  A zone, three users, three request bodies, and the world after the first of them has
  registered the label alice with a DNS write that succeeded.
\<close>

definition zone0 :: string where
  "zone0 = ''example.org.''"

definition alice_user :: user where
  "alice_user = \<lparr>uid = ''owner1'', email = ''alice@example.org'', isAdmin = False\<rparr>"

definition bob_user :: user where
  "bob_user = \<lparr>uid = ''owner2'', email = ''bob@example.org'', isAdmin = False\<rparr>"

definition admin_user :: user where
  "admin_user = \<lparr>uid = ''root0'', email = ''admin@example.org'', isAdmin = True\<rparr>"

definition alice_body :: postBody where
  "alice_body = \<lparr>b_subdomainName = JStr ''alice'', b_targetUrl = JStr ''10.0.0.5'',
                  b_recordType = JStr ''A''\<rparr>"

definition bob_body :: postBody where
  "bob_body = \<lparr>b_subdomainName = JStr '' ALICE '', b_targetUrl = JStr ''10.0.0.9'',
                b_recordType = JUndefined\<rparr>"

definition bad_body :: postBody where
  "bad_body = \<lparr>b_subdomainName = JStr ''alice'', b_targetUrl = JStr ''not-an-ip'',
                b_recordType = JStr ''A''\<rparr>"

definition alice_doc :: doc where
  "alice_doc =
     \<lparr>subdomainName = ''alice'', userEmail = ''alice@example.org'', userId = ''owner1'',
      targetUrl = ''10.0.0.5'', recordType = A, status = Approved, dnsCreated = True,
      dnsError = None, createdAt = Some 1, approvedAt = Some 2, updatedAt = None\<rparr>"

definition world1 :: world where
  "world1 =
     \<lparr>docs = [(1, alice_doc)],
      dns = [(''alice.example.org.'', A) \<mapsto> (3600, [\<lparr>content = ''10.0.0.5'', disabled = False\<rparr>])],
      sent = [Replace ''alice.example.org.'' A 3600 [\<lparr>content = ''10.0.0.5'', disabled = False\<rparr>]],
      rateLimit = Map.empty\<rparr>"

section \<open>The name validator\<close>

lemma spec_label_hd:
  assumes "l \<noteq> []"
  shows "startsWith l ''-'' \<longleftrightarrow> hd l = CHR ''-''"
  using assms by (cases l) (simp_all add: startsWith_def)

lemma spec_label_last:
  assumes "l \<noteq> []"
  shows "endsWith l ''-'' \<longleftrightarrow> last l = CHR ''-''"
proof -
  from assms obtain ys y where l: "l = ys @ [y]"
    by (metis rev_exhaust)
  show ?thesis by (simp add: l endsWith_def)
qed

lemma reserved_set: "t \<in> set reserved \<longleftrightarrow>
        t \<in> {''www'', ''mail'', ''ftp'', ''admin'', ''root'', ''api'', ''ns1'', ''ns2''}"
  unfolding reserved_def by (simp only: list.set)

lemma formatTest_iff: "t \<noteq> [] \<Longrightarrow> formatTest t \<longleftrightarrow> (\<forall>c \<in> set t. labelChar c)"
  by (simp add: formatTest_def list_all_iff)

lemma validate_iff_spec_label:
  "validateSubdomainName (JStr s) =
     (if spec_label (toLowerCase (trim s)) then Valid (toLowerCase (trim s))
      else validateSubdomainName (JStr s))
   \<and> (spec_label (toLowerCase (trim s)) \<or> (\<exists>e. validateSubdomainName (JStr s) = Invalid e))"
proof -
  let ?t = "toLowerCase (trim s)"
  show ?thesis
  proof (cases "length ?t < 3 \<or> length ?t > 63")
    case True
    then have "\<not> spec_label ?t" by (auto simp: spec_label_def)
    with True show ?thesis by (auto simp: Let_def)
  next
    case False
    then have ne: "?t \<noteq> []" by auto
    then have sne: "s \<noteq> []" by (auto simp: toLowerCase_def trim_def)
    have sp: "spec_label ?t \<longleftrightarrow> formatTest ?t \<and> \<not> startsWith ?t ''-'' \<and> \<not> endsWith ?t ''-'' \<and> ?t \<notin> set reserved"
      unfolding spec_label_def reserved_set [symmetric] using False formatTest_iff [OF ne] spec_label_hd [OF ne] spec_label_last [OF ne]
      by auto
    show ?thesis
      unfolding sp using False sne 
      by (auto simp: Let_def)
  qed
qed
text \<open>
  Claim C5. The name validator always returns a result. For an input string whose trimmed,
  lowercased form satisfies the label rule of the specification it returns valid with that
  form; for every other input (a value that is not a string, the empty string, a reserved
  name, ...) it returns invalid with a non-empty reason.
\<close>

theorem validateSubdomainName_total:
  "(v = JStr s \<and> spec_label (toLowerCase (trim s)) \<longrightarrow>
      validateSubdomainName v = Valid (toLowerCase (trim s)))
   \<and> ((\<forall>s. v = JStr s \<longrightarrow> \<not> spec_label (toLowerCase (trim s))) \<longrightarrow>
      (\<exists>e. e \<noteq> [] \<and> validateSubdomainName v = Invalid e))"
proof (cases v)
  case (JStr x)
  show ?thesis
  proof (cases "spec_label (toLowerCase (trim x))")
    case True
    with JStr validate_iff_spec_label [of x] show ?thesis
      by (auto simp del: validateSubdomainName.simps)
  next
    case False
    with validate_iff_spec_label [of x] obtain e where e: "validateSubdomainName (JStr x) = Invalid e"
      by blast
    then have "e \<noteq> []"
      by (auto simp: Let_def split: if_splits)
    with e JStr False show ?thesis
      by (auto simp del: validateSubdomainName.simps)
  qed
qed simp_all

theorem validateSubdomainName_total_witness:
  "validateSubdomainName (JStr ''  Alice-1 '') = Valid ''alice-1''
   \<and> (\<exists>e. e \<noteq> [] \<and> validateSubdomainName (JStr ''www'') = Invalid e)
   \<and> (\<exists>e. e \<noteq> [] \<and> validateSubdomainName (JNum 5) = Invalid e)
   \<and> (\<exists>e. e \<noteq> [] \<and> validateSubdomainName (JStr []) = Invalid e)"
proof -
  have n: "toLowerCase (trim ''  Alice-1 '') = ''alice-1''" by code_simp
  have a: "spec_label (toLowerCase (trim ''  Alice-1 ''))" by code_simp
  have b: "\<not> spec_label (toLowerCase (trim ''www''))" by code_simp
  have c: "\<not> spec_label (toLowerCase (trim []))" by code_simp
  show ?thesis
    using validateSubdomainName_total [of "JStr ''  Alice-1 ''" "''  Alice-1 ''"]
      validateSubdomainName_total [of "JStr ''www''" s]
      validateSubdomainName_total [of "JNum 5" s]
      validateSubdomainName_total [of "JStr []" s]
      a b c
    by (simp add: n del: validateSubdomainName.simps)
qed

section \<open>Facts about the DNS client, the collection and the handlers\<close>

declare decimal.simps [simp del]

lemma fetch_fields [simp]:
  "docs (fetch rr fr w) = docs w"
  "rateLimit (fetch rr fr w) = rateLimit w"
  "sent (fetch rr fr w) = sent w @ [rr]"
  by (simp_all add: fetch_def)

lemma createARecord_world:
  "snd (createARecord zone sub t fr w) =
     fetch (Replace (sub @ ''.'' @ zone) A 3600 [\<lparr>content = t, disabled = False\<rparr>]) fr w"
  by (simp add: createARecord_def Let_def split: fetchResult.splits)

lemma createCNAMERecord_world:
  "snd (createCNAMERecord zone sub t fr w) =
     fetch (Replace (sub @ ''.'' @ zone) CNAME 3600
       [\<lparr>content = (if endsWith t ''.'' then t else t @ ''.''), disabled = False\<rparr>]) fr w"
  by (simp add: createCNAMERecord_def Let_def split: fetchResult.splits)

lemma deleteRecord_world:
  "snd (deleteRecord zone sub rt fr w) = fetch (Delete (sub @ ''.'' @ zone) rt) fr w"
  by (simp add: deleteRecord_def Let_def split: fetchResult.splits)

lemma updateRecord_docs [simp]:
  "docs (snd (updateRecord zone sub rt t fr w)) = docs w"
  by (cases rt) (simp_all add: updateRecord_def createARecord_world createCNAMERecord_world)

lemma updateRecord_result:
  "fst (updateRecord zone sub rt t fr w) = Inr True \<or> (\<exists>m. fst (updateRecord zone sub rt t fr w) = Inl m)"
  by (cases rt)
    (auto simp: updateRecord_def createARecord_def createCNAMERecord_def Let_def
      split: fetchResult.splits)

lemma whereSubdomainName_empty:
  "whereSubdomainName ds v = [] \<longleftrightarrow> (\<forall>(i, d) \<in> set ds. subdomainName d \<noteq> v)"
  by (auto simp: whereSubdomainName_def filter_empty_conv)

lemma foldr_max_upper: "i \<in> set xs \<Longrightarrow> i \<le> foldr max xs (0::nat)"
  by (induction xs) (auto simp: le_max_iff_disj)

lemma newDocId_above: "i \<in> fst ` set ds \<Longrightarrow> i < newDocId ds"
  using foldr_max_upper [of i "map fst ds"] by (simp add: newDocId_def less_Suc_eq_le)

lemma newDocId_fresh: "map_of ds (newDocId ds) = None"
  using newDocId_above [of "newDocId ds" ds] by (auto simp: map_of_eq_None_iff)

lemma map_of_add_new: "([newDocId ds \<mapsto> d] ++ map_of ds) (newDocId ds) = Some d"
  by (simp add: map_add_def newDocId_fresh)

lemma map_of_add_other: "j \<noteq> newDocId ds \<Longrightarrow> ([newDocId ds \<mapsto> d] ++ map_of ds) j = map_of ds j"
  by (simp add: map_add_def split: option.splits)

lemma whereSubdomainName_readd:
  assumes "whereSubdomainName ds sub = []"
  shows "whereSubdomainName (AList.delete i (ds @ [(i, d)])) sub = []"
  using assms by (auto simp: whereSubdomainName_empty AList.delete_eq)

lemma whereSubdomainName_present:
  assumes "map_of ds i = Some d"
  shows "whereSubdomainName ds (subdomainName d) \<noteq> []"
  using map_of_SomeD [OF assms] by (auto simp: whereSubdomainName_empty)

lemma validateIP_truthy: "validateIP L t = Valid v \<Longrightarrow> truthy t"
  by (cases t) (auto split: if_splits)

lemma validateURL_truthy: "validateURL L t = Valid v \<Longrightarrow> truthy t"
  by (cases t) (auto simp: Let_def split: if_splits)

lemma Valid_truthy: "validateSubdomainName name = Valid v \<Longrightarrow> truthy name"
  by (cases name) (auto split: if_splits)

text \<open>What create does once validation and the uniqueness check have passed.\<close>

lemma create_accepted:
  assumes lab: "validateSubdomainName (b_subdomainName b) = Valid sub"
    and tgt: "(b_recordType b \<in> {JUndefined, JStr ''A''} \<and> rt = A
                \<and> validateIP L (b_targetUrl b) = Valid tgt)
            \<or> (b_recordType b = JStr ''CNAME'' \<and> rt = CNAME
                \<and> validateURL L (b_targetUrl b) = Valid tgt)"
    and free: "whereSubdomainName (docs w) sub = []"
  shows "create L zone u b fr tc ta w =
     (let r = fst (updateRecord zone sub rt tgt fr w);
          w1 = snd (updateRecord zone sub rt tgt fr w);
          d = \<lparr>subdomainName = sub, userEmail = email u, userId = uid u, targetUrl = tgt,
               recordType = rt, status = Approved,
               dnsCreated = (case r of Inl m \<Rightarrow> False | Inr x \<Rightarrow> True),
               dnsError = (case r of Inl m \<Rightarrow> Some m | Inr x \<Rightarrow> None),
               createdAt = Some tc, approvedAt = Some ta, updatedAt = None\<rparr>
      in (Created (newDocId (docs w)) d, w1\<lparr>docs := docs w @ [(newDocId (docs w), d)]\<rparr>))"
proof -
  from tgt consider
      (a) "b_recordType b \<in> {JUndefined, JStr ''A''}" "rt = A"
          "validateIP L (b_targetUrl b) = Valid tgt"
    | (c) "b_recordType b = JStr ''CNAME''" "rt = CNAME"
          "validateURL L (b_targetUrl b) = Valid tgt"
    by blast
  then show ?thesis
  proof cases
    case a
    then show ?thesis
      using lab free
      by (auto simp: create_def Let_def updateRecord_def split_beta createARecord_world)
  next
    case c
    then show ?thesis
      using lab free
      by (auto simp: create_def Let_def updateRecord_def split_beta createCNAMERecord_world)
  qed
qed

lemma create_Created:
  assumes "create L zone u b fr tc ta w = (Created i d, w1)"
  obtains sub rt tgt where
    "validateSubdomainName (b_subdomainName b) = Valid sub"
    "(b_recordType b \<in> {JUndefined, JStr ''A''} \<and> rt = A
        \<and> validateIP L (b_targetUrl b) = Valid tgt)
     \<or> (b_recordType b = JStr ''CNAME'' \<and> rt = CNAME
        \<and> validateURL L (b_targetUrl b) = Valid tgt)"
    "whereSubdomainName (docs w) sub = []"
proof -
  obtain sub where lab: "validateSubdomainName (b_subdomainName b) = Valid sub"
    using assms by (cases "validateSubdomainName (b_subdomainName b)") (auto simp: create_def Let_def)
  let ?rt = "if b_recordType b = JUndefined then JStr ''A'' else b_recordType b"
  have rt: "?rt = JStr ''A'' \<or> ?rt = JStr ''CNAME''"
    using assms lab by (auto simp: create_def Let_def split: if_splits)
  let ?v = "if ?rt = JStr ''A'' then validateIP L (b_targetUrl b) else validateURL L (b_targetUrl b)"
  obtain tgt where tv: "?v = Valid tgt"
    using assms lab rt by (cases ?v) (auto simp: create_def Let_def split: if_splits)
  have free: "whereSubdomainName (docs w) sub = []"
    using assms lab rt tv by (auto simp: create_def Let_def split: if_splits)
  from rt show ?thesis
  proof
    assume a: "?rt = JStr ''A''"
    then have "b_recordType b \<in> {JUndefined, JStr ''A''}" by (auto split: if_splits)
    with a tv that [OF lab _ free, of A tgt] show ?thesis by simp
  next
    assume c: "?rt = JStr ''CNAME''"
    then have "b_recordType b = JStr ''CNAME''" by (auto split: if_splits)
    with c tv that [OF lab _ free, of CNAME tgt] show ?thesis by simp
  qed
qed

lemma create_stored:
  assumes "create L zone u b fr tc ta w = (Created i d, w1)"
  shows "validateSubdomainName (b_subdomainName b) = Valid (subdomainName d)"
    and "whereSubdomainName (docs w) (subdomainName d) = []"
    and "i = newDocId (docs w)"
    and "docs w1 = docs w @ [(i, d)]"
    and "map_of (docs w1) i = Some d"
proof -
  from assms obtain sub rt tgt where
    lab: "validateSubdomainName (b_subdomainName b) = Valid sub"
    and tg: "(b_recordType b \<in> {JUndefined, JStr ''A''} \<and> rt = A
                \<and> validateIP L (b_targetUrl b) = Valid tgt)
            \<or> (b_recordType b = JStr ''CNAME'' \<and> rt = CNAME
                \<and> validateURL L (b_targetUrl b) = Valid tgt)"
    and free: "whereSubdomainName (docs w) sub = []"
    by (rule create_Created)
  from assms have i: "i = newDocId (docs w)" and dsub: "subdomainName d = sub"
    and w1: "docs w1 = docs w @ [(i, d)]"
    unfolding create_accepted [OF lab tg free] by (auto simp: Let_def)
  show "validateSubdomainName (b_subdomainName b) = Valid (subdomainName d)"
    using lab dsub by simp
  show "whereSubdomainName (docs w) (subdomainName d) = []"
    using free dsub by simp
  show "i = newDocId (docs w)" by (rule i)
  show "docs w1 = docs w @ [(i, d)]" by (rule w1)
  show "map_of (docs w1) i = Some d"
    by (simp add: w1 i map_of_add_new)
qed

lemma create_free:
  assumes lab: "validateSubdomainName (b_subdomainName b) = Valid sub"
    and tg: "(b_recordType b \<in> {JUndefined, JStr ''A''}
                \<and> (\<exists>t. validateIP L (b_targetUrl b) = Valid t))
            \<or> (b_recordType b = JStr ''CNAME''
                \<and> (\<exists>t. validateURL L (b_targetUrl b) = Valid t))"
    and free: "whereSubdomainName (docs w) sub = []"
  shows "\<exists>i d w'. create L zone u b fr tc ta w = (Created i d, w')
      \<and> subdomainName d = sub \<and> map_of (docs w') i = Some d"
proof -
  from tg obtain rt tgt where
    "(b_recordType b \<in> {JUndefined, JStr ''A''} \<and> rt = A
        \<and> validateIP L (b_targetUrl b) = Valid tgt)
     \<or> (b_recordType b = JStr ''CNAME'' \<and> rt = CNAME
        \<and> validateURL L (b_targetUrl b) = Valid tgt)"
    by blast
  from create_accepted [OF lab this free] show ?thesis
    by (simp add: Let_def map_of_add_new)
qed

text \<open>
  \<^verbatim>\<open>handlePost\<close> is create behind the rate limiter: a client the limiter admits gets
  what create answers, on the world in which the limiter has counted the request.
\<close>

lemma handlePost_admitted:
  assumes "fst (checkRateLimit (rateLimit w) clientIP 5 (15 * 60 * 1000) now)"
  shows "handlePost L zone u clientIP now b fr tc ta w =
     create L zone u b fr tc ta
       (w\<lparr>rateLimit := snd (checkRateLimit (rateLimit w) clientIP 5 (15 * 60 * 1000) now)\<rparr>)"
  using assms by (simp add: handlePost_def split_beta Let_def)

lemma handlePost_limited:
  assumes "\<not> fst (checkRateLimit (rateLimit w) clientIP 5 (15 * 60 * 1000) now)"
  shows "handlePost L zone u clientIP now b fr tc ta w =
     (Error 429 ''Too many requests. Please try again later.'', w)"
  using assms
  by (auto simp: handlePost_def split_beta Let_def checkRateLimit_def
      split: option.splits if_splits)

text \<open>A label that is taken: every create call for it is refused and changes nothing.\<close>

lemma create_taken:
  assumes "validateSubdomainName (b_subdomainName b) = Valid sub"
    and "whereSubdomainName (docs w) sub \<noteq> []"
  shows "\<exists>c e. create L zone u b fr tc ta w = (Error c e, w)"
    and "(b_recordType b \<in> {JUndefined, JStr ''A''} \<and> (\<exists>t. validateIP L (b_targetUrl b) = Valid t))
         \<or> (b_recordType b = JStr ''CNAME'' \<and> (\<exists>t. validateURL L (b_targetUrl b) = Valid t))
       \<Longrightarrow> create L zone u b fr tc ta w = (Error 409 ''This subdomain is already taken'', w)"
  using assms
  by (auto simp: create_def Let_def split: validation.splits)

lemma create_invalid_ip:
  assumes "validateSubdomainName (b_subdomainName b) = Valid sub"
    and "b_recordType b = JStr ''A''"
    and "validateIP L (b_targetUrl b) = Invalid e"
  shows "create L zone u b fr tc ta w = (Error 400 e, w)"
  using assms by (simp add: create_def Let_def)

lemma handleDelete_allowed:
  assumes "map_of (docs w) i = Some d" and "isAdmin u \<or> userId d = uid u"
  shows "handleDelete zone u i fr w =
     (Deleted,
      (if dnsCreated d then fetch (Delete (subdomainName d @ ''.'' @ zone) (recordType d)) fr w
       else w)\<lparr>docs := AList.delete i (docs w)\<rparr>)"
  using assms by (auto simp: handleDelete_def Let_def deleteRecord_world)

lemma handlePatch_accepted:
  assumes d: "map_of (docs w) i = Some d" and au: "isAdmin u \<or> userId d = uid u"
    and tv: "(case recordType d of A \<Rightarrow> validateIP L t | CNAME \<Rightarrow> validateURL L t) = Valid tgt"
  shows "handlePatch L zone u i t fr tu w =
     (let r = fst (updateRecord zone (subdomainName d) (recordType d) tgt fr w);
          w1 = snd (updateRecord zone (subdomainName d) (recordType d) tgt fr w);
          f = (\<lambda>x. x\<lparr>targetUrl := tgt,
                 dnsCreated := (case r of Inl m \<Rightarrow> False | Inr x \<Rightarrow> True),
                 dnsError := (case r of Inl m \<Rightarrow> Some m | Inr x \<Rightarrow> None),
                 updatedAt := Some tu\<rparr>)
      in (Ok200 i (f d), w1\<lparr>docs := AList.map_entry i f (docs w)\<rparr>))"
proof -
  have tr: "truthy t"
    using tv validateIP_truthy validateURL_truthy by (cases "recordType d") auto
  show ?thesis
  proof (cases "recordType d")
    case A
    with d au tr tv show ?thesis
      by (auto simp: handlePatch_def Let_def split_beta updateRecord_def
          createARecord_world map_of_map_entry)
  next
    case CNAME
    with d au tr tv show ?thesis
      by (auto simp: handlePatch_def Let_def split_beta updateRecord_def
          createCNAMERecord_world map_of_map_entry)
  qed
qed

text \<open>
  No handler changes the label of a stored record: create leaves every stored record as it
  is, updateTarget keeps the label, delete of another identifier and get change nothing of
  it. A record that has not been deleted therefore still holds the label it was created
  with.
\<close>

lemma create_world:
  "snd (create L zone u b fr tc ta w) = w
   \<or> (\<exists>d w1. docs (snd (create L zone u b fr tc ta w)) = docs w @ [(newDocId (docs w), d)])"
proof (cases "fst (create L zone u b fr tc ta w)")
  case (Created i d)
  then have "create L zone u b fr tc ta w = (Created i d, snd (create L zone u b fr tc ta w))"
    by (simp add: prod_eq_iff)
  from create_stored(3,4) [OF this] show ?thesis by blast
qed (auto simp: create_def Let_def split_beta split: validation.splits if_splits)

lemma handlers_keep_label:
  assumes "map_of (docs w) i = Some d"
  shows "map_of (docs (snd (create L zone u b fr tc ta w))) i = Some d"
    and "\<exists>d'. map_of (docs (snd (handlePatch L zone u j t fr tu w))) i = Some d'
           \<and> subdomainName d' = subdomainName d"
    and "j \<noteq> i \<Longrightarrow> map_of (docs (snd (handleDelete zone u j fr w))) i = Some d"
    and "snd (handleGet u j w) = w"
proof -
  from create_world [of L zone u b fr tc ta w]
  show "map_of (docs (snd (create L zone u b fr tc ta w))) i = Some d"
    using assms by (auto simp: map_add_def)
  show "\<exists>d'. map_of (docs (snd (handlePatch L zone u j t fr tu w))) i = Some d'
           \<and> subdomainName d' = subdomainName d"
    using assms
    by (auto simp: handlePatch_def Let_def split_beta map_of_map_entry
        createARecord_world createCNAMERecord_world
        split: option.splits validation.splits rtype.splits)
  show "j \<noteq> i \<Longrightarrow> map_of (docs (snd (handleDelete zone u j fr w))) i = Some d"
    using assms
    by (auto simp: handleDelete_def Let_def deleteRecord_world AList.delete_conv'
        split: option.splits)
  show "snd (handleGet u j w) = w"
    by (auto simp: handleGet_def split: option.splits)
qed

lemma updateRecord_sent:
  "sent (snd (updateRecord zone sub rt t fr w)) =
     sent w @ [Replace (sub @ ''.'' @ zone) rt 3600
       [\<lparr>content = (case rt of A \<Rightarrow> t
                     | CNAME \<Rightarrow> if endsWith t ''.'' then t else t @ ''.''),
         disabled = False\<rparr>]]"
  by (cases rt) (simp_all add: updateRecord_def createARecord_world createCNAMERecord_world)

text \<open>
  Past the ownership check no handler reads the actor again: two actors who both pass it
  get the same answer and leave the same world.
\<close>

lemma handlers_same_for_allowed:
  assumes "map_of (docs w) i = Some d"
    and "isAdmin u \<or> userId d = uid u" and "isAdmin u' \<or> userId d = uid u'"
  shows "handleGet u i w = handleGet u' i w"
    and "handlePatch L zone u i t fr tu w = handlePatch L zone u' i t fr tu w"
    and "handleDelete zone u i fr w = handleDelete zone u' i fr w"
  using assms by (auto simp: handleGet_def handlePatch_def handleDelete_def)

section \<open>The concrete environment at work\<close>

lemma alice_label: "validateSubdomainName (b_subdomainName alice_body) = Valid ''alice''"
  by code_simp

lemma bob_label: "validateSubdomainName (b_subdomainName bob_body) = Valid ''alice''"
  by code_simp

lemma bad_label: "validateSubdomainName (b_subdomainName bad_body) = Valid ''alice''"
  by code_simp

lemma alice_target: "validateIP refLib (b_targetUrl alice_body) = Valid ''10.0.0.5''"
  by code_simp

lemma bob_target: "validateIP refLib (b_targetUrl bob_body) = Valid ''10.0.0.9''"
  by code_simp

lemma bad_target: "validateIP refLib (b_targetUrl bad_body) = Invalid ''Invalid IPv4 address''"
  by code_simp

lemma new_target: "(case recordType alice_doc of
                      A \<Rightarrow> validateIP refLib (JStr ''10.0.0.9'')
                    | CNAME \<Rightarrow> validateURL refLib (JStr ''10.0.0.9'')) = Valid ''10.0.0.9''"
  by code_simp

lemma short_label:
  "validateSubdomainName (JStr ''ab'') = Invalid ''Subdomain must be between 3 and 63 characters''"
  by code_simp

lemma hostName_example: "isFQDN refLib ''example.com''"
  by code_simp

lemma world0_free: "whereSubdomainName (docs world0) sub = []"
  by (simp add: world0_def whereSubdomainName_def)

lemma world1_docs: "docs world1 = [(1, alice_doc)]"
  by (simp add: world1_def)

lemma world1_alice: "map_of (docs world1) 1 = Some alice_doc"
  unfolding world1_docs by simp

lemma alice_owns: "isAdmin alice_user \<or> userId alice_doc = uid alice_user"
  by (simp add: alice_user_def alice_doc_def)

lemma alice_flag: "dnsCreated alice_doc"
  by (simp add: alice_doc_def)

lemma bob_stranger: "\<not> isAdmin bob_user \<and> userId alice_doc \<noteq> uid bob_user"
  by (simp add: bob_user_def alice_doc_def)

lemma admin_is_admin: "isAdmin admin_user"
  by (simp add: admin_user_def)

lemma ok_204: "ok 204"
  by (simp add: ok_def)

lemma create_alice:
  "create refLib zone0 alice_user alice_body (Response 204 []) 1 2 world0
     = (Created 1 alice_doc, world1)"
proof -
  have t: "b_recordType alice_body \<in> {JUndefined, JStr ''A''} \<and> A = A
        \<and> validateIP refLib (b_targetUrl alice_body) = Valid ''10.0.0.5''
     \<or> b_recordType alice_body = JStr ''CNAME'' \<and> A = CNAME
        \<and> validateURL refLib (b_targetUrl alice_body) = Valid ''10.0.0.5''"
    using alice_target by (simp add: alice_body_def)
  show ?thesis
    unfolding create_accepted [OF alice_label t world0_free]
    by (simp add: Let_def updateRecord_def createARecord_def fetch_def ok_def world0_def
        world1_def alice_doc_def alice_user_def zone0_def newDocId_def)
qed

lemma dns_error_500:
  "fst (updateRecord zone0 ''alice'' A ''10.0.0.5'' (Response 500 ''boom'') world0)
     = Inl ''PowerDNS API error (500): boom''"
  by code_simp

lemma patch_alice_busy:
  "handlePatch refLib zone0 alice_user 1 (JStr ''10.0.0.9'') (Response 503 ''busy'') 9 world1
     = (Ok200 1 (alice_doc\<lparr>targetUrl := ''10.0.0.9'', dnsCreated := False,
                   dnsError := Some ''PowerDNS API error (503): busy'',
                   updatedAt := Some 9\<rparr>),
        snd (handlePatch refLib zone0 alice_user 1 (JStr ''10.0.0.9'') (Response 503 ''busy'') 9
               world1))"
proof -
  have m: "fst (updateRecord zone0 (subdomainName alice_doc) (recordType alice_doc) ''10.0.0.9''
      (Response 503 ''busy'') world1) = Inl ''PowerDNS API error (503): busy''"
    by code_simp
  show ?thesis
    unfolding handlePatch_accepted [OF world1_alice alice_owns new_target]
    by (simp add: Let_def m)
qed

lemma alice_is_owner: "uid alice_user = userId alice_doc"
  by (simp add: alice_user_def alice_doc_def)

lemma admin_patch_result:
  "fst (updateRecord zone0 (subdomainName alice_doc) (recordType alice_doc) ''10.0.0.9''
      (Response 204 []) world1) = Inr True"
  by code_simp

section \<open>The claims\<close>

text \<open>
  Claim C1. In auto-approval mode, whenever the label and the target of a create call pass
  validation and the label is not taken, a DNS client call that throws does not fail the
  call: create answers 201 with a new record, stored under a new identifier, whose status
  is approved, whose dnsCreated is false and whose dnsError is the message of the error
  thrown. No other document changes.
\<close>

theorem create_dns_failure_persists:
  assumes "validateSubdomainName (b_subdomainName b) = Valid sub"
    and "(b_recordType b \<in> {JUndefined, JStr ''A''} \<and> rt = A
                \<and> validateIP L (b_targetUrl b) = Valid tgt)
            \<or> (b_recordType b = JStr ''CNAME'' \<and> rt = CNAME
                \<and> validateURL L (b_targetUrl b) = Valid tgt)"
    and "\<forall>(i, d) \<in> set (docs w). subdomainName d \<noteq> sub"
    and "fst (updateRecord zone sub rt tgt fr w) = Inl m"
  shows "\<exists>i d w'. create L zone u b fr tc ta w = (Created i d, w')
      \<and> map_of (docs w) i = None \<and> map_of (docs w') i = Some d
      \<and> (\<forall>j. j \<noteq> i \<longrightarrow> map_of (docs w') j = map_of (docs w) j)
      \<and> subdomainName d = sub \<and> targetUrl d = tgt \<and> recordType d = rt \<and> userId d = uid u
      \<and> status d = Approved \<and> dnsCreated d = False \<and> dnsError d = Some m"
proof -
  from assms(3) have free: "whereSubdomainName (docs w) sub = []"
    by (simp add: whereSubdomainName_empty)
  show ?thesis
    unfolding create_accepted [OF assms(1) assms(2) free]
    by (simp add: Let_def assms(4) newDocId_fresh map_of_add_new map_of_add_other)
qed

theorem create_dns_failure_persists_witness:
  "\<exists>i d w'. create refLib zone0 alice_user alice_body (Response 500 ''boom'') 1 2 world0
               = (Created i d, w')
      \<and> map_of (docs world0) i = None \<and> map_of (docs w') i = Some d
      \<and> subdomainName d = ''alice'' \<and> targetUrl d = ''10.0.0.5'' \<and> recordType d = A
      \<and> userId d = uid alice_user
      \<and> status d = Approved \<and> dnsCreated d = False
      \<and> dnsError d = Some ''PowerDNS API error (500): boom''"
proof -
  have t: "b_recordType alice_body \<in> {JUndefined, JStr ''A''} \<and> A = A
        \<and> validateIP refLib (b_targetUrl alice_body) = Valid ''10.0.0.5''
     \<or> b_recordType alice_body = JStr ''CNAME'' \<and> A = CNAME
        \<and> validateURL refLib (b_targetUrl alice_body) = Valid ''10.0.0.5''"
    using alice_target by (simp add: alice_body_def)
  have f: "\<forall>(i, d) \<in> set (docs world0). subdomainName d \<noteq> ''alice''"
    by (simp add: world0_def)
  from create_dns_failure_persists [OF alice_label t f dns_error_500,
      of alice_user 1 2]
  show ?thesis by blast
qed

text \<open>
  Claim C2, amended. After a create call has succeeded, and as long as its record is stored
  (with its label, which no handler changes), every create call with the same normalized
  label is refused and leaves the whole world as it was: no new record, no DNS request, the
  first record untouched.
  The refusal is 409 (label taken) when the record type and the target of the second call
  pass validation; a second call whose target is invalid is refused by the target check
  that precedes the uniqueness check. Once the record is deleted by its owner or an admin,
  a create call with that label and a valid target succeeds again.
\<close>

theorem label_taken_until_deleted:
  assumes "create L zone u1 b1 fr1 tc1 ta1 w = (Created i d, w1)"
    and "validateSubdomainName (b_subdomainName b2) = validateSubdomainName (b_subdomainName b1)"
  shows "map_of (docs w1) i = Some d
    \<and> (map_of (docs w2) i = Some d2 \<and> subdomainName d2 = subdomainName d \<longrightarrow>
         (\<exists>c e. create L zone u2 b2 fr2 tc2 ta2 w2 = (Error c e, w2))
         \<and> ((b_recordType b2 \<in> {JUndefined, JStr ''A''}
                \<and> (\<exists>t. validateIP L (b_targetUrl b2) = Valid t))
             \<or> (b_recordType b2 = JStr ''CNAME''
                \<and> (\<exists>t. validateURL L (b_targetUrl b2) = Valid t)) \<longrightarrow>
             create L zone u2 b2 fr2 tc2 ta2 w2
               = (Error 409 ''This subdomain is already taken'', w2)))
    \<and> ((isAdmin u3 \<or> userId d = uid u3)
         \<and> ((b_recordType b2 \<in> {JUndefined, JStr ''A''}
                \<and> (\<exists>t. validateIP L (b_targetUrl b2) = Valid t))
             \<or> (b_recordType b2 = JStr ''CNAME''
                \<and> (\<exists>t. validateURL L (b_targetUrl b2) = Valid t))) \<longrightarrow>
         (\<exists>i' d' w4. create L zone u2 b2 fr2 tc2 ta2 (snd (handleDelete zone u3 i fr3 w1))
                        = (Created i' d', w4)
              \<and> subdomainName d' = subdomainName d \<and> map_of (docs w4) i' = Some d'))"
proof (intro conjI impI)
  note st = create_stored [OF assms(1)]
  have lab2: "validateSubdomainName (b_subdomainName b2) = Valid (subdomainName d)"
    using assms(2) st(1) by simp
  show "map_of (docs w1) i = Some d" by (rule st(5))
  {
    assume k: "map_of (docs w2) i = Some d2 \<and> subdomainName d2 = subdomainName d"
    then have taken: "whereSubdomainName (docs w2) (subdomainName d) \<noteq> []"
      using whereSubdomainName_present [of "docs w2" i d2] by simp
    show "\<exists>c e. create L zone u2 b2 fr2 tc2 ta2 w2 = (Error c e, w2)"
      by (rule create_taken(1) [OF lab2 taken])
    assume "(b_recordType b2 \<in> {JUndefined, JStr ''A''}
                \<and> (\<exists>t. validateIP L (b_targetUrl b2) = Valid t))
             \<or> (b_recordType b2 = JStr ''CNAME''
                \<and> (\<exists>t. validateURL L (b_targetUrl b2) = Valid t))"
    then show "create L zone u2 b2 fr2 tc2 ta2 w2
        = (Error 409 ''This subdomain is already taken'', w2)"
      by (rule create_taken(2) [OF lab2 taken])
  }
  assume r: "(isAdmin u3 \<or> userId d = uid u3)
         \<and> ((b_recordType b2 \<in> {JUndefined, JStr ''A''}
                \<and> (\<exists>t. validateIP L (b_targetUrl b2) = Valid t))
             \<or> (b_recordType b2 = JStr ''CNAME''
                \<and> (\<exists>t. validateURL L (b_targetUrl b2) = Valid t)))"
  then have del: "docs (snd (handleDelete zone u3 i fr3 w1)) = AList.delete i (docs w @ [(i, d)])"
    using handleDelete_allowed [OF st(5), of u3 zone fr3] by (simp add: st(4))
  have "whereSubdomainName (docs (snd (handleDelete zone u3 i fr3 w1))) (subdomainName d) = []"
    unfolding del by (rule whereSubdomainName_readd [OF st(2)])
  from create_free [OF lab2 _ this] r
  show "\<exists>i' d' w4. create L zone u2 b2 fr2 tc2 ta2 (snd (handleDelete zone u3 i fr3 w1))
                        = (Created i' d', w4)
              \<and> subdomainName d' = subdomainName d \<and> map_of (docs w4) i' = Some d'"
    by blast
qed

theorem label_taken_until_deleted_witness:
  "map_of (docs world1) 1 = Some alice_doc
   \<and> create refLib zone0 bob_user bob_body (Response 204 []) 3 4 world1
       = (Error 409 ''This subdomain is already taken'', world1)
   \<and> (\<exists>i' d' w4. create refLib zone0 bob_user bob_body (Response 204 []) 3 4
                    (snd (handleDelete zone0 alice_user 1 (NetworkError ''down'') world1))
                    = (Created i' d', w4)
        \<and> subdomainName d' = subdomainName alice_doc \<and> map_of (docs w4) i' = Some d')"
proof -
  have same: "validateSubdomainName (b_subdomainName bob_body)
      = validateSubdomainName (b_subdomainName alice_body)"
    by (simp add: alice_label bob_label del: validateSubdomainName.simps)
  have acc: "(b_recordType bob_body \<in> {JUndefined, JStr ''A''}
                \<and> (\<exists>t. validateIP refLib (b_targetUrl bob_body) = Valid t))
             \<or> (b_recordType bob_body = JStr ''CNAME''
                \<and> (\<exists>t. validateURL refLib (b_targetUrl bob_body) = Valid t))"
    using bob_target by (simp add: bob_body_def)
  have own: "isAdmin alice_user \<or> userId alice_doc = uid alice_user"
    by (simp add: alice_user_def alice_doc_def)
  from label_taken_until_deleted [OF create_alice same,
      of world1 alice_doc bob_user "Response 204 []" 3 4 alice_user "NetworkError ''down''"]
    acc own
  show ?thesis by blast
qed

text \<open>
  The claim as stated (every second call fails with label taken) does not hold: alice is
  registered, and a second call for alice with the target not-an-ip is answered 400,
  invalid IPv4 address.
\<close>

theorem label_taken_counterexample:
  "create refLib zone0 alice_user alice_body (Response 204 []) 1 2 world0
     = (Created 1 alice_doc, world1)
   \<and> map_of (docs world1) 1 = Some alice_doc
   \<and> validateSubdomainName (b_subdomainName bad_body)
       = validateSubdomainName (b_subdomainName alice_body)
   \<and> create refLib zone0 bob_user bad_body (Response 204 []) 3 4 world1
       = (Error 400 ''Invalid IPv4 address'', world1)
   \<and> Error 400 ''Invalid IPv4 address'' \<noteq> Error 409 ''This subdomain is already taken''"
proof -
  have "create refLib zone0 bob_user bad_body (Response 204 []) 3 4 world1
       = (Error 400 ''Invalid IPv4 address'', world1)"
    by (rule create_invalid_ip [OF bad_label _ bad_target]) (simp add: bad_body_def)
  moreover have "map_of (docs world1) 1 = Some alice_doc"
    unfolding world1_docs by simp
  moreover have "validateSubdomainName (b_subdomainName bad_body)
       = validateSubdomainName (b_subdomainName alice_body)"
    unfolding alice_label bad_label ..
  moreover have "Error 400 ''Invalid IPv4 address''
      \<noteq> Error 409 ''This subdomain is already taken''"
    by simp
  ultimately show ?thesis
    using create_alice by blast
qed

text \<open>
  Claim C3. For an existing record and an actor who is admin or owner, delete answers
  success and the record is gone afterwards, whatever the DNS outcome, with all other
  documents unchanged. A delete request is sent to the DNS Directory exactly when the
  record has dnsCreated = true, and none otherwise.
\<close>

theorem delete_removes_record:
  assumes "map_of (docs w) i = Some d" and "isAdmin u \<or> userId d = uid u"
  shows "\<exists>w'. handleDelete zone u i fr w = (Deleted, w')
      \<and> map_of (docs w') i = None
      \<and> (\<forall>j. j \<noteq> i \<longrightarrow> map_of (docs w') j = map_of (docs w) j)
      \<and> sent w' = sent w @ (if dnsCreated d
                              then [Delete (subdomainName d @ ''.'' @ zone) (recordType d)]
                              else [])"
  unfolding handleDelete_allowed [OF assms]
  by (simp add: AList.delete_conv')

theorem delete_removes_record_witness:
  "\<exists>w'. handleDelete zone0 alice_user 1 (NetworkError ''down'') world1 = (Deleted, w')
      \<and> map_of (docs w') 1 = None
      \<and> sent w' = sent world1
           @ [Delete (subdomainName alice_doc @ ''.'' @ zone0) (recordType alice_doc)]"
  using delete_removes_record [OF world1_alice alice_owns, of zone0 "NetworkError ''down''"]
    alice_flag
  by auto

text \<open>
  Claim C4 fails on the code. \<^verbatim>\<open>validateURL\<close> strips the scheme and the final slash only
  for the test by \<^verbatim>\<open>isFQDN\<close> and returns the trimmed input itself. With a library that
  accepts example.com, the CNAME target https://example.com/ is accepted, stored as
  https://example.com/ and sent to the DNS Directory as the content https://example.com/.
  (with the final dot appended), not as example.com.
\<close>

theorem cname_target_keeps_scheme:
  assumes "isFQDN L ''example.com''"
    and "\<forall>(i, d) \<in> set (docs w). subdomainName d \<noteq> ''blog''"
  shows "validateURL L (JStr ''https://example.com/'') = Valid ''https://example.com/''
    \<and> (\<exists>i d w'. create L zone u
          \<lparr>b_subdomainName = JStr ''blog'', b_targetUrl = JStr ''https://example.com/'',
           b_recordType = JStr ''CNAME''\<rparr> fr tc ta w = (Created i d, w')
        \<and> map_of (docs w') i = Some d
        \<and> targetUrl d = ''https://example.com/''
        \<and> sent w' = sent w @ [Replace (''blog.'' @ zone) CNAME 3600
             [\<lparr>content = ''https://example.com/.'', disabled = False\<rparr>]])"
proof -
  have t: "trim ''https://example.com/'' = ''https://example.com/''" by code_simp
  have s: "stripSlash (stripScheme ''https://example.com/'') = ''example.com''" by code_simp
  have v: "validateURL L (JStr ''https://example.com/'') = Valid ''https://example.com/''"
    using assms(1) by (simp add: t s Let_def)
  have l: "validateSubdomainName (JStr ''blog'') = Valid ''blog''" by code_simp
  have e: "endsWith ''https://example.com/'' ''.'' = False" by code_simp
  have free: "whereSubdomainName (docs w) ''blog'' = []"
    using assms(2) by (simp add: whereSubdomainName_empty)
  let ?b = "\<lparr>b_subdomainName = JStr ''blog'', b_targetUrl = JStr ''https://example.com/'',
           b_recordType = JStr ''CNAME''\<rparr>"
  have "create L zone u ?b fr tc ta w =
     (let r = fst (updateRecord zone ''blog'' CNAME ''https://example.com/'' fr w);
          w1 = snd (updateRecord zone ''blog'' CNAME ''https://example.com/'' fr w);
          d = \<lparr>subdomainName = ''blog'', userEmail = email u, userId = uid u,
               targetUrl = ''https://example.com/'',
               recordType = CNAME, status = Approved,
               dnsCreated = (case r of Inl m \<Rightarrow> False | Inr x \<Rightarrow> True),
               dnsError = (case r of Inl m \<Rightarrow> Some m | Inr x \<Rightarrow> None),
               createdAt = Some tc, approvedAt = Some ta, updatedAt = None\<rparr>
      in (Created (newDocId (docs w)) d, w1\<lparr>docs := docs w @ [(newDocId (docs w), d)]\<rparr>))"
    by (rule create_accepted) (simp_all add: l v free del: validateSubdomainName.simps validateURL.simps)
  then show ?thesis
    using v
    by (simp add: Let_def map_of_add_new updateRecord_def createCNAMERecord_world e
        del: validateURL.simps)
qed

theorem cname_target_keeps_scheme_witness:
  "validateURL refLib (JStr ''https://example.com/'') = Valid ''https://example.com/''
    \<and> (\<exists>i d w'. create refLib zone0 alice_user
          \<lparr>b_subdomainName = JStr ''blog'', b_targetUrl = JStr ''https://example.com/'',
           b_recordType = JStr ''CNAME''\<rparr> (Response 204 []) 1 2 world0 = (Created i d, w')
        \<and> map_of (docs w') i = Some d
        \<and> targetUrl d = ''https://example.com/''
        \<and> sent w' = sent world0 @ [Replace (''blog.'' @ zone0) CNAME 3600
             [\<lparr>content = ''https://example.com/.'', disabled = False\<rparr>]])"
proof -
  have e: "\<forall>(i, d) \<in> set (docs world0). subdomainName d \<noteq> ''blog''"
    by (simp add: world0_def)
  show ?thesis
    by (rule cname_target_keeps_scheme [OF hostName_example e])
qed

text \<open>
  Claim C6. For an existing record of any status, an actor who is admin or owner and a
  target that is valid for the record type stored, updateTarget answers 200 whatever the
  DNS outcome. The record stays under its identifier and differs from the old one at most
  in target, dnsCreated, dnsError and updatedAt; label, owner, record type, status,
  createdAt and approvedAt are the old ones, and no other document changes.
\<close>

theorem updateTarget_frame:
  assumes "map_of (docs w) i = Some d" and "isAdmin u \<or> userId d = uid u"
    and "(case recordType d of A \<Rightarrow> validateIP L t | CNAME \<Rightarrow> validateURL L t) = Valid tgt"
  shows "\<exists>d' w'. handlePatch L zone u i t fr tu w = (Ok200 i d', w')
      \<and> map_of (docs w') i = Some d'
      \<and> (\<forall>j. j \<noteq> i \<longrightarrow> map_of (docs w') j = map_of (docs w) j)
      \<and> targetUrl d' = tgt \<and> updatedAt d' = Some tu
      \<and> subdomainName d' = subdomainName d \<and> userId d' = userId d
      \<and> userEmail d' = userEmail d \<and> recordType d' = recordType d
      \<and> status d' = status d \<and> createdAt d' = createdAt d \<and> approvedAt d' = approvedAt d
      \<and> (\<exists>c e. d' = d\<lparr>targetUrl := tgt, dnsCreated := c, dnsError := e, updatedAt := Some tu\<rparr>)"
  unfolding handlePatch_accepted [OF assms]
  by (simp add: Let_def map_of_map_entry assms(1)) blast

theorem updateTarget_frame_witness:
  "\<exists>d' w'. handlePatch refLib zone0 alice_user 1 (JStr ''10.0.0.9'') (Response 503 ''busy'') 9
               world1 = (Ok200 1 d', w')
      \<and> map_of (docs w') 1 = Some d'
      \<and> targetUrl d' = ''10.0.0.9'' \<and> updatedAt d' = Some 9
      \<and> subdomainName d' = subdomainName alice_doc \<and> userId d' = userId alice_doc
      \<and> recordType d' = recordType alice_doc \<and> status d' = status alice_doc
      \<and> createdAt d' = createdAt alice_doc \<and> approvedAt d' = approvedAt alice_doc"
  using updateTarget_frame [OF world1_alice alice_owns new_target,
      of zone0 "Response 503 ''busy''" 9]
  by blast

text \<open>
  Claim C7. On an existing record, get, updateTarget and delete by an actor who is neither
  admin nor the owner answer 403 and change nothing. By an admin they proceed whoever owns
  the record, with the answer and the resulting world that the owner would get: get
  answers the record; delete answers success, removes the record, leaves the other
  documents alone and sends the DNS delete request exactly when dnsCreated is true;
  updateTarget is never answered 403, and with a target valid for the record type it
  answers 200, sends the DNS replace request for the new target and stores the record
  with the new target, the DNS flags of that request and the new updatedAt, all other
  documents unchanged.
\<close>

theorem access_by_owner_or_admin:
  assumes "map_of (docs w) i = Some d"
  shows "(\<not> isAdmin u \<and> userId d \<noteq> uid u \<longrightarrow>
            handleGet u i w = (Error 403 ''Access denied'', w)
          \<and> handlePatch L zone u i t fr tu w = (Error 403 ''Access denied'', w)
          \<and> handleDelete zone u i fr w = (Error 403 ''Access denied'', w))
     \<and> (isAdmin u \<longrightarrow>
            handleGet u i w = (Ok200 i d, w)
          \<and> (\<exists>w'. handleDelete zone u i fr w = (Deleted, w')
                \<and> map_of (docs w') i = None
                \<and> (\<forall>j. j \<noteq> i \<longrightarrow> map_of (docs w') j = map_of (docs w) j)
                \<and> sent w' = sent w @ (if dnsCreated d
                      then [Delete (subdomainName d @ ''.'' @ zone) (recordType d)]
                      else []))
          \<and> fst (handlePatch L zone u i t fr tu w) \<noteq> Error 403 ''Access denied''
          \<and> (\<forall>ow. uid ow = userId d \<longrightarrow>
                handleGet u i w = handleGet ow i w
              \<and> handlePatch L zone u i t fr tu w = handlePatch L zone ow i t fr tu w
              \<and> handleDelete zone u i fr w = handleDelete zone ow i fr w)
          \<and> (\<forall>tgt. (case recordType d of A \<Rightarrow> validateIP L t | CNAME \<Rightarrow> validateURL L t)
                       = Valid tgt \<longrightarrow>
                (\<exists>d' w'. handlePatch L zone u i t fr tu w = (Ok200 i d', w')
                   \<and> d' = d\<lparr>targetUrl := tgt,
                            dnsCreated :=
                              (case fst (updateRecord zone (subdomainName d) (recordType d)
                                           tgt fr w) of
                                 Inl m \<Rightarrow> False | Inr x \<Rightarrow> True),
                            dnsError :=
                              (case fst (updateRecord zone (subdomainName d) (recordType d)
                                           tgt fr w) of
                                 Inl m \<Rightarrow> Some m | Inr x \<Rightarrow> None),
                            updatedAt := Some tu\<rparr>
                   \<and> map_of (docs w') i = Some d'
                   \<and> (\<forall>j. j \<noteq> i \<longrightarrow> map_of (docs w') j = map_of (docs w) j)
                   \<and> sent w' = sent w @ [Replace (subdomainName d @ ''.'' @ zone)
                        (recordType d) 3600
                        [\<lparr>content = (case recordType d of A \<Rightarrow> tgt
                             | CNAME \<Rightarrow> if endsWith tgt ''.'' then tgt else tgt @ ''.''),
                          disabled = False\<rparr>]])))"
proof (intro conjI impI allI)
  assume "\<not> isAdmin u \<and> userId d \<noteq> uid u"
  with assms show "handleGet u i w = (Error 403 ''Access denied'', w)"
    and "handlePatch L zone u i t fr tu w = (Error 403 ''Access denied'', w)"
    and "handleDelete zone u i fr w = (Error 403 ''Access denied'', w)"
    by (simp_all add: handleGet_def handlePatch_def handleDelete_def)
next
  assume a: "isAdmin u"
  with assms show "handleGet u i w = (Ok200 i d, w)"
    by (simp add: handleGet_def)
  from a have au: "isAdmin u \<or> userId d = uid u" by simp
  show "\<exists>w'. handleDelete zone u i fr w = (Deleted, w')
                \<and> map_of (docs w') i = None
                \<and> (\<forall>j. j \<noteq> i \<longrightarrow> map_of (docs w') j = map_of (docs w) j)
                \<and> sent w' = sent w @ (if dnsCreated d
                      then [Delete (subdomainName d @ ''.'' @ zone) (recordType d)]
                      else [])"
    unfolding handleDelete_allowed [OF assms au] by (simp add: AList.delete_conv')
  show "fst (handlePatch L zone u i t fr tu w) \<noteq> Error 403 ''Access denied''"
    using assms a
    by (auto simp: handlePatch_def Let_def split_beta split: validation.splits option.splits)
  {
    fix ow :: user
    assume "uid ow = userId d"
    then have ao: "isAdmin ow \<or> userId d = uid ow" by simp
    show "handleGet u i w = handleGet ow i w"
      by (rule handlers_same_for_allowed(1) [OF assms au ao])
    show "handlePatch L zone u i t fr tu w = handlePatch L zone ow i t fr tu w"
      by (rule handlers_same_for_allowed(2) [OF assms au ao])
    show "handleDelete zone u i fr w = handleDelete zone ow i fr w"
      by (rule handlers_same_for_allowed(3) [OF assms au ao])
  }
  fix tgt
  assume "(case recordType d of A \<Rightarrow> validateIP L t | CNAME \<Rightarrow> validateURL L t) = Valid tgt"
  from handlePatch_accepted [OF assms au this]
  show "\<exists>d' w'. handlePatch L zone u i t fr tu w = (Ok200 i d', w')
                   \<and> d' = d\<lparr>targetUrl := tgt,
                            dnsCreated :=
                              (case fst (updateRecord zone (subdomainName d) (recordType d)
                                           tgt fr w) of
                                 Inl m \<Rightarrow> False | Inr x \<Rightarrow> True),
                            dnsError :=
                              (case fst (updateRecord zone (subdomainName d) (recordType d)
                                           tgt fr w) of
                                 Inl m \<Rightarrow> Some m | Inr x \<Rightarrow> None),
                            updatedAt := Some tu\<rparr>
                   \<and> map_of (docs w') i = Some d'
                   \<and> (\<forall>j. j \<noteq> i \<longrightarrow> map_of (docs w') j = map_of (docs w) j)
                   \<and> sent w' = sent w @ [Replace (subdomainName d @ ''.'' @ zone)
                        (recordType d) 3600
                        [\<lparr>content = (case recordType d of A \<Rightarrow> tgt
                             | CNAME \<Rightarrow> if endsWith tgt ''.'' then tgt else tgt @ ''.''),
                          disabled = False\<rparr>]]"
    by (simp add: Let_def map_of_map_entry assms updateRecord_sent)
qed

theorem access_by_owner_or_admin_witness:
  "handleGet bob_user 1 world1 = (Error 403 ''Access denied'', world1)
   \<and> handlePatch refLib zone0 bob_user 1 (JStr ''10.0.0.9'') (Response 204 []) 9 world1
       = (Error 403 ''Access denied'', world1)
   \<and> handleDelete zone0 bob_user 1 (Response 204 []) world1
       = (Error 403 ''Access denied'', world1)
   \<and> handleGet admin_user 1 world1 = (Ok200 1 alice_doc, world1)
   \<and> (\<exists>w'. handleDelete zone0 admin_user 1 (Response 204 []) world1 = (Deleted, w')
         \<and> map_of (docs w') 1 = None
         \<and> sent w' = sent world1 @ [Delete (subdomainName alice_doc @ ''.'' @ zone0) A])
   \<and> handlePatch refLib zone0 admin_user 1 (JStr ''10.0.0.9'') (Response 204 []) 9 world1
       = handlePatch refLib zone0 alice_user 1 (JStr ''10.0.0.9'') (Response 204 []) 9 world1
   \<and> (\<exists>w'. handlePatch refLib zone0 admin_user 1 (JStr ''10.0.0.9'') (Response 204 []) 9
              world1
            = (Ok200 1 (alice_doc\<lparr>targetUrl := ''10.0.0.9'', dnsCreated := True,
                          dnsError := None, updatedAt := Some 9\<rparr>), w')
         \<and> map_of (docs w') 1
            = Some (alice_doc\<lparr>targetUrl := ''10.0.0.9'', dnsCreated := True,
                      dnsError := None, updatedAt := Some 9\<rparr>)
         \<and> sent w' = sent world1 @ [Replace (subdomainName alice_doc @ ''.'' @ zone0) A 3600
              [\<lparr>content = ''10.0.0.9'', disabled = False\<rparr>]])"
proof -
  have rt: "recordType alice_doc = A" by (simp add: alice_doc_def)
  note b = access_by_owner_or_admin [OF world1_alice,
      of bob_user refLib zone0 "JStr ''10.0.0.9''" "Response 204 []" 9]
  note a = access_by_owner_or_admin [OF world1_alice,
      of admin_user refLib zone0 "JStr ''10.0.0.9''" "Response 204 []" 9]
  from b bob_stranger have 1:
    "handleGet bob_user 1 world1 = (Error 403 ''Access denied'', world1)
     \<and> handlePatch refLib zone0 bob_user 1 (JStr ''10.0.0.9'') (Response 204 []) 9 world1
       = (Error 403 ''Access denied'', world1)
     \<and> handleDelete zone0 bob_user 1 (Response 204 []) world1
       = (Error 403 ''Access denied'', world1)"
    by blast
  from a admin_is_admin have 2: "handleGet admin_user 1 world1 = (Ok200 1 alice_doc, world1)"
    by blast
  from a admin_is_admin alice_flag have 3:
    "\<exists>w'. handleDelete zone0 admin_user 1 (Response 204 []) world1 = (Deleted, w')
         \<and> map_of (docs w') 1 = None
         \<and> sent w' = sent world1 @ [Delete (subdomainName alice_doc @ ''.'' @ zone0) A]"
    by (auto simp: rt)
  from a admin_is_admin alice_is_owner have 4:
    "handlePatch refLib zone0 admin_user 1 (JStr ''10.0.0.9'') (Response 204 []) 9 world1
       = handlePatch refLib zone0 alice_user 1 (JStr ''10.0.0.9'') (Response 204 []) 9 world1"
    by blast
  from a admin_is_admin new_target have
    "\<exists>d' w'. handlePatch refLib zone0 admin_user 1 (JStr ''10.0.0.9'') (Response 204 []) 9
              world1 = (Ok200 1 d', w')
       \<and> d' = alice_doc\<lparr>targetUrl := ''10.0.0.9'',
                dnsCreated :=
                  (case fst (updateRecord zone0 (subdomainName alice_doc) (recordType alice_doc)
                               ''10.0.0.9'' (Response 204 []) world1) of
                     Inl m \<Rightarrow> False | Inr x \<Rightarrow> True),
                dnsError :=
                  (case fst (updateRecord zone0 (subdomainName alice_doc) (recordType alice_doc)
                               ''10.0.0.9'' (Response 204 []) world1) of
                     Inl m \<Rightarrow> Some m | Inr x \<Rightarrow> None),
                updatedAt := Some 9\<rparr>
       \<and> map_of (docs w') 1 = Some d'
       \<and> (\<forall>j. j \<noteq> 1 \<longrightarrow> map_of (docs w') j = map_of (docs world1) j)
       \<and> sent w' = sent world1 @ [Replace (subdomainName alice_doc @ ''.'' @ zone0)
            (recordType alice_doc) 3600
            [\<lparr>content = (case recordType alice_doc of A \<Rightarrow> ''10.0.0.9''
                 | CNAME \<Rightarrow> if endsWith ''10.0.0.9'' ''.'' then ''10.0.0.9''
                            else ''10.0.0.9'' @ ''.''),
              disabled = False\<rparr>]]"
    by blast
  then have 5:
    "\<exists>w'. handlePatch refLib zone0 admin_user 1 (JStr ''10.0.0.9'') (Response 204 []) 9
              world1
            = (Ok200 1 (alice_doc\<lparr>targetUrl := ''10.0.0.9'', dnsCreated := True,
                          dnsError := None, updatedAt := Some 9\<rparr>), w')
         \<and> map_of (docs w') 1
            = Some (alice_doc\<lparr>targetUrl := ''10.0.0.9'', dnsCreated := True,
                      dnsError := None, updatedAt := Some 9\<rparr>)
         \<and> sent w' = sent world1 @ [Replace (subdomainName alice_doc @ ''.'' @ zone0) A 3600
              [\<lparr>content = ''10.0.0.9'', disabled = False\<rparr>]]"
    unfolding admin_patch_result by (auto simp: rt)
  from 1 2 3 4 5 show ?thesis by blast
qed

text \<open>
  Claim C8, amended. A missing or empty name is answered 400, name required. Every other
  name that fails the name validator is answered available = false with the validator's
  reason, whatever the collection holds (no lookup is needed). A valid name is answered
  available = true exactly when no stored record has the normalized label. So after a
  successful create the label reads as taken, and after the record is deleted by its
  owner or an admin it reads as available again.
\<close>

theorem check_handler_answers:
  "(\<not> truthy name \<longrightarrow> check_handler GET name w = Error 400 ''Subdomain name is required'')
   \<and> (truthy name \<and> validateSubdomainName name = Invalid e \<longrightarrow>
        (\<forall>w'. check_handler GET name w' = Availability False (Some e)))
   \<and> (validateSubdomainName name = Valid v \<longrightarrow>
        check_handler GET name w =
          (if \<forall>(i, d) \<in> set (docs w). subdomainName d \<noteq> v then Availability True None
           else Availability False (Some ''This subdomain is already taken'')))
   \<and> (create L zone u b fr tc ta w = (Created i d, w1) \<longrightarrow>
        check_handler GET (b_subdomainName b) w1
          = Availability False (Some ''This subdomain is already taken'')
        \<and> (isAdmin u' \<or> userId d = uid u' \<longrightarrow>
             check_handler GET (b_subdomainName b) (snd (handleDelete zone u' i fr' w1))
               = Availability True None))"
proof (intro conjI impI allI)
  assume "\<not> truthy name"
  then show "check_handler GET name w = Error 400 ''Subdomain name is required''"
    by (simp add: check_handler_def)
next
  fix w'
  assume "truthy name \<and> validateSubdomainName name = Invalid e"
  then show "check_handler GET name w' = Availability False (Some e)"
    by (simp add: check_handler_def)
next
  assume v: "validateSubdomainName name = Valid v"
  show "check_handler GET name w =
          (if \<forall>(i, d) \<in> set (docs w). subdomainName d \<noteq> v then Availability True None
           else Availability False (Some ''This subdomain is already taken''))"
    using v Valid_truthy [OF v]
    by (simp add: check_handler_def Let_def whereSubdomainName_empty)
next
  assume c: "create L zone u b fr tc ta w = (Created i d, w1)"
  note st = create_stored [OF c]
  have tr: "truthy (b_subdomainName b)" by (rule Valid_truthy [OF st(1)])
  have "whereSubdomainName (docs w1) (subdomainName d) \<noteq> []"
    by (rule whereSubdomainName_present [OF st(5)])
  then show "check_handler GET (b_subdomainName b) w1
      = Availability False (Some ''This subdomain is already taken'')"
    using tr st(1) by (simp add: check_handler_def Let_def)
  assume au: "isAdmin u' \<or> userId d = uid u'"
  have "docs (snd (handleDelete zone u' i fr' w1)) = AList.delete i (docs w @ [(i, d)])"
    using handleDelete_allowed [OF st(5) au, of zone fr'] by (simp add: st(4))
  then have "whereSubdomainName (docs (snd (handleDelete zone u' i fr' w1))) (subdomainName d) = []"
    using whereSubdomainName_readd [OF st(2)] by simp
  then show "check_handler GET (b_subdomainName b) (snd (handleDelete zone u' i fr' w1))
      = Availability True None"
    using tr st(1) by (simp add: check_handler_def Let_def)
qed

theorem check_handler_answers_witness:
  "check_handler GET JUndefined world0 = Error 400 ''Subdomain name is required''
   \<and> check_handler GET (JStr ''ab'') world1
       = Availability False (Some ''Subdomain must be between 3 and 63 characters'')
   \<and> check_handler GET (JStr ''alice'') world0 = Availability True None
   \<and> check_handler GET (JStr ''alice'') world1
       = Availability False (Some ''This subdomain is already taken'')
   \<and> check_handler GET (JStr ''alice'')
        (snd (handleDelete zone0 alice_user 1 (Response 204 []) world1))
       = Availability True None"
proof -
  have n: "b_subdomainName alice_body = JStr ''alice''"
    by (simp add: alice_body_def)
  have l: "validateSubdomainName (JStr ''alice'') = Valid ''alice''"
    using alice_label unfolding n .
  have t: "truthy (JStr ''ab'')" "\<not> truthy JUndefined"
    by simp_all
  have e: "\<forall>(i, d) \<in> set (docs world0). subdomainName d \<noteq> ''alice''"
    by (simp add: world0_def)
  have a: "check_handler GET JUndefined world0 = Error 400 ''Subdomain name is required''"
    using check_handler_answers [where name = JUndefined and w = world0] t by blast
  have b: "check_handler GET (JStr ''ab'') world1
       = Availability False (Some ''Subdomain must be between 3 and 63 characters'')"
    using check_handler_answers [where name = "JStr ''ab''"
        and e = "''Subdomain must be between 3 and 63 characters''"] t short_label
    by blast
  have c: "check_handler GET (JStr ''alice'') world0 = Availability True None"
    using check_handler_answers [where name = "JStr ''alice''" and w = world0 and v = "''alice''"] l e
    by (simp del: validateSubdomainName.simps)
  have d: "check_handler GET (JStr ''alice'') world1
       = Availability False (Some ''This subdomain is already taken'')
    \<and> check_handler GET (JStr ''alice'')
        (snd (handleDelete zone0 alice_user 1 (Response 204 []) world1))
       = Availability True None"
    using check_handler_answers [where L = refLib and zone = zone0 and u = alice_user
        and b = alice_body and fr = "Response 204 []" and tc = 1 and ta = 2 and w = world0
        and i = 1 and d = alice_doc and ?w1.0 = world1 and u' = alice_user
        and fr' = "Response 204 []"]
      create_alice alice_owns
    unfolding n by blast
  from a b c d show ?thesis by blast
qed

text \<open>
  The claim as stated (available = false with the validator's reason for every label that
  fails the validator) does not hold for the empty name: the validator rejects it, and the
  handler answers 400 with an error instead of an availability.
\<close>

theorem check_handler_counterexample:
  "validateSubdomainName (JStr []) = Invalid ''Subdomain name is required''
   \<and> check_handler GET (JStr []) world0 = Error 400 ''Subdomain name is required''
   \<and> check_handler GET (JStr []) world0
       \<noteq> Availability False (Some ''Subdomain name is required'')"
  by (simp add: check_handler_def)

text \<open>
  Claim C9. When the DNS Directory accepts the requests, a second upsertA with the same
  label and address leaves the directory as the first one left it, with the record set of
  the label's fully-qualified name holding that address; and an upsertA with another
  address overwrites what any earlier call for the label left there. Each call sends the
  same REPLACE request, fixed by label and address. Whatever the two answers are, the
  directory after two calls with the same input is the directory after one such call.
\<close>

theorem upsertA_idempotent:
  assumes "ok st1" and "ok st2"
  shows "dns (snd (createARecord zone label ip (Response st2 t2)
                 (snd (createARecord zone label ip (Response st1 t1) w))))
           = dns (snd (createARecord zone label ip (Response st1 t1) w))
      \<and> dns (snd (createARecord zone label ip (Response st1 t1) w)) (label @ ''.'' @ zone, A)
           = Some (3600, [\<lparr>content = ip, disabled = False\<rparr>])
      \<and> dns (snd (createARecord zone label ip' (Response st2 t2)
                 (snd (createARecord zone label ip fr w)))) (label @ ''.'' @ zone, A)
           = Some (3600, [\<lparr>content = ip', disabled = False\<rparr>])
      \<and> dns (snd (createARecord zone label ip' (Response st2 t2)
                 (snd (createARecord zone label ip (Response st1 t1) w))))
           = dns (snd (createARecord zone label ip' (Response st2 t2) w))
      \<and> fst (createARecord zone label ip (Response st1 t1) w) = Inr True
      \<and> sent (snd (createARecord zone label ip fr w))
           = sent w @ [Replace (label @ ''.'' @ zone) A 3600 [\<lparr>content = ip, disabled = False\<rparr>]]
      \<and> dns (snd (createARecord zone label ip fr2 (snd (createARecord zone label ip fr1 w))))
           = dns (snd (createARecord zone label ip
                    (if (case fr2 of Response st x \<Rightarrow> ok st | NetworkError m \<Rightarrow> False)
                     then fr2 else fr1) w))"
proof -
  have r: "fst (createARecord zone label ip (Response st1 t1) w) = Inr True"
    using assms(1) by (simp add: createARecord_def Let_def)
  have s: "sent (snd (createARecord zone label ip fr w))
      = sent w @ [Replace (label @ ''.'' @ zone) A 3600 [\<lparr>content = ip, disabled = False\<rparr>]]"
    by (simp add: createARecord_world)
  have t: "dns (snd (createARecord zone label ip fr2 (snd (createARecord zone label ip fr1 w))))
      = dns (snd (createARecord zone label ip
               (if (case fr2 of Response st x \<Rightarrow> ok st | NetworkError m \<Rightarrow> False)
                then fr2 else fr1) w))"
    by (simp add: createARecord_world fetch_def split: fetchResult.splits)
  have u: "dns (snd (createARecord zone label ip (Response st2 t2)
                 (snd (createARecord zone label ip (Response st1 t1) w))))
           = dns (snd (createARecord zone label ip (Response st1 t1) w))
      \<and> dns (snd (createARecord zone label ip (Response st1 t1) w)) (label @ ''.'' @ zone, A)
           = Some (3600, [\<lparr>content = ip, disabled = False\<rparr>])
      \<and> dns (snd (createARecord zone label ip' (Response st2 t2)
                 (snd (createARecord zone label ip fr w)))) (label @ ''.'' @ zone, A)
           = Some (3600, [\<lparr>content = ip', disabled = False\<rparr>])
      \<and> dns (snd (createARecord zone label ip' (Response st2 t2)
                 (snd (createARecord zone label ip (Response st1 t1) w))))
           = dns (snd (createARecord zone label ip' (Response st2 t2) w))"
    using assms by (simp add: createARecord_world fetch_def)
  from r s t u show ?thesis by blast
qed

theorem upsertA_idempotent_witness:
  "dns (snd (createARecord zone0 ''alice'' ''10.0.0.5'' (Response 204 [])
         (snd (createARecord zone0 ''alice'' ''10.0.0.5'' (Response 204 []) world0))))
     = dns (snd (createARecord zone0 ''alice'' ''10.0.0.5'' (Response 204 []) world0))
   \<and> dns (snd (createARecord zone0 ''alice'' ''10.0.0.9'' (Response 204 [])
         (snd (createARecord zone0 ''alice'' ''10.0.0.5'' (Response 204 []) world0))))
       (''alice'' @ ''.'' @ zone0, A)
     = Some (3600, [\<lparr>content = ''10.0.0.9'', disabled = False\<rparr>])"
  using upsertA_idempotent [OF ok_204 ok_204, of zone0 "''alice''" "''10.0.0.5''" "[]" "[]"
      world0 "''10.0.0.9''" "Response 204 []"]
  by blast

text \<open>
  Claim C10. After a successful create, and after a successful updateTarget, the record
  stored has dnsCreated = true if and only if dnsError is null: a DNS write that succeeded
  gives dnsCreated = true and dnsError = null, one that threw gives dnsCreated = false and
  dnsError equal to the message thrown.
\<close>

theorem dns_flags_agree:
  "(create L zone u b fr tc ta w = (Created i d, w') \<longrightarrow>
      map_of (docs w') i = Some d
      \<and> (dnsCreated d \<longleftrightarrow> dnsError d = None)
      \<and> (fst (updateRecord zone (subdomainName d) (recordType d) (targetUrl d) fr w) = Inr True
            \<longrightarrow> dnsCreated d \<and> dnsError d = None)
      \<and> (\<forall>m. fst (updateRecord zone (subdomainName d) (recordType d) (targetUrl d) fr w) = Inl m
            \<longrightarrow> \<not> dnsCreated d \<and> dnsError d = Some m))
   \<and> (handlePatch L zone u i t fr tu w = (Ok200 j d, w') \<longrightarrow>
      map_of (docs w') j = Some d
      \<and> (dnsCreated d \<longleftrightarrow> dnsError d = None)
      \<and> (fst (updateRecord zone (subdomainName d) (recordType d) (targetUrl d) fr w) = Inr True
            \<longrightarrow> dnsCreated d \<and> dnsError d = None)
      \<and> (\<forall>m. fst (updateRecord zone (subdomainName d) (recordType d) (targetUrl d) fr w) = Inl m
            \<longrightarrow> \<not> dnsCreated d \<and> dnsError d = Some m))"
proof (rule conjI; rule impI)
  assume c: "create L zone u b fr tc ta w = (Created i d, w')"
  then obtain sub rt tgt where
    lab: "validateSubdomainName (b_subdomainName b) = Valid sub"
    and tg: "(b_recordType b \<in> {JUndefined, JStr ''A''} \<and> rt = A
                \<and> validateIP L (b_targetUrl b) = Valid tgt)
            \<or> (b_recordType b = JStr ''CNAME'' \<and> rt = CNAME
                \<and> validateURL L (b_targetUrl b) = Valid tgt)"
    and free: "whereSubdomainName (docs w) sub = []"
    by (rule create_Created)
  from c updateRecord_result [of zone sub rt tgt fr w]
  show "map_of (docs w') i = Some d
      \<and> (dnsCreated d \<longleftrightarrow> dnsError d = None)
      \<and> (fst (updateRecord zone (subdomainName d) (recordType d) (targetUrl d) fr w) = Inr True
            \<longrightarrow> dnsCreated d \<and> dnsError d = None)
      \<and> (\<forall>m. fst (updateRecord zone (subdomainName d) (recordType d) (targetUrl d) fr w) = Inl m
            \<longrightarrow> \<not> dnsCreated d \<and> dnsError d = Some m)"
    unfolding create_accepted [OF lab tg free]
    by (auto simp: Let_def map_of_add_new)
next
  assume p: "handlePatch L zone u i t fr tu w = (Ok200 j d, w')"
  then obtain d0 where d0: "map_of (docs w) i = Some d0"
    by (cases "map_of (docs w) i") (auto simp: handlePatch_def)
  from p d0 have au: "isAdmin u \<or> userId d0 = uid u"
    by (auto simp: handlePatch_def split: if_splits)
  from p d0 au obtain tgt where
    tv: "(case recordType d0 of A \<Rightarrow> validateIP L t | CNAME \<Rightarrow> validateURL L t) = Valid tgt"
    by (cases "case recordType d0 of A \<Rightarrow> validateIP L t | CNAME \<Rightarrow> validateURL L t")
      (auto simp: handlePatch_def split: if_splits)
  from p have ij: "j = i"
    unfolding handlePatch_accepted [OF d0 au tv] by (simp add: Let_def)
  note d0j = d0 [folded ij]
  from p updateRecord_result [of zone "subdomainName d0" "recordType d0" tgt fr w]
  show "map_of (docs w') j = Some d
      \<and> (dnsCreated d \<longleftrightarrow> dnsError d = None)
      \<and> (fst (updateRecord zone (subdomainName d) (recordType d) (targetUrl d) fr w) = Inr True
            \<longrightarrow> dnsCreated d \<and> dnsError d = None)
      \<and> (\<forall>m. fst (updateRecord zone (subdomainName d) (recordType d) (targetUrl d) fr w) = Inl m
            \<longrightarrow> \<not> dnsCreated d \<and> dnsError d = Some m)"
    unfolding handlePatch_accepted [OF d0 au tv]
    by (auto simp: Let_def map_of_map_entry d0j)
qed

theorem dns_flags_agree_witness:
  "map_of (docs world1) 1 = Some alice_doc
   \<and> dnsCreated alice_doc = (dnsError alice_doc = None)
   \<and> dnsError (alice_doc\<lparr>targetUrl := ''10.0.0.9'', dnsCreated := False,
                   dnsError := Some ''PowerDNS API error (503): busy'',
                   updatedAt := Some 9\<rparr>) \<noteq> None
   \<and> map_of (docs (snd (handlePatch refLib zone0 alice_user 1 (JStr ''10.0.0.9'')
                          (Response 503 ''busy'') 9 world1))) 1
       = Some (alice_doc\<lparr>targetUrl := ''10.0.0.9'', dnsCreated := False,
                   dnsError := Some ''PowerDNS API error (503): busy'',
                   updatedAt := Some 9\<rparr>)"
  using dns_flags_agree [where L = refLib and zone = zone0 and u = alice_user
      and b = alice_body and fr = "Response 204 []" and tc = 1 and ta = 2 and w = world0
      and i = 1 and d = alice_doc and w' = world1]
    dns_flags_agree [where L = refLib and zone = zone0 and u = alice_user and i = 1
      and t = "JStr ''10.0.0.9''" and fr = "Response 503 ''busy''" and tu = 9 and w = world1
      and j = 1
      and d = "alice_doc\<lparr>targetUrl := ''10.0.0.9'', dnsCreated := False,
                   dnsError := Some ''PowerDNS API error (503): busy'',
                   updatedAt := Some 9\<rparr>"
      and w' = "snd (handlePatch refLib zone0 alice_user 1 (JStr ''10.0.0.9'')
                   (Response 503 ''busy'') 9 world1)"]
    create_alice patch_alice_busy
  by simp

end
